theory Spec2Isabelle
  imports Complex_Main "HOL-Library.Multiset" "HOL-Library.Sublist"
begin

section \<open>Deployment orchestrator (scripts/deploy-agents.py)\<close>

text \<open>
  A shallow embedding of the orchestration core of \<^verbatim>\<open>deploy-agents.py\<close>: the state
  manager, the construction of the remote environment string, the per-device deployment,
  and the selection, execution and exit logic of \<^verbatim>\<open>main\<close>.

  Python strings are modelled as \<^typ>\<open>string\<close> over 8-bit characters (code points 0..255).
  Everything the script obtains from outside (what a subprocess returns or raises, what a
  file holds, whether a file can be written, the clock, what the operator types) is an
  explicit argument. Clock readings and durations are real numbers.
\<close>

subsection \<open>Exceptions\<close>

text \<open>
  An instance of a subclass of Python's \<^verbatim>\<open>Exception\<close>. \<^verbatim>\<open>TimeoutExpired\<close> is the one
  class the script tells apart (in \<^verbatim>\<open>test_connectivity\<close>); both carry the text of
  \<^verbatim>\<open>str(e)\<close>.
\<close>

datatype py_exception = TimeoutExpired string | OtherException string

fun exc_str :: "py_exception \<Rightarrow> string" where
  "exc_str (TimeoutExpired m) = m"
| "exc_str (OtherException m) = m"

subsection \<open>Writing a local file\<close>

text \<open>
  What \<^verbatim>\<open>with open(path, "w") as f:\<close> and the writes under it do. \<open>Written\<close>: the file
  now holds what was written. \<open>OpenFails e\<close>: \<^verbatim>\<open>open\<close> raises \<open>e\<close> (no such directory, a
  directory in the file's place, no permission) and the file, if any, is as it was.
  \<open>WriteFails e\<close>: the file was opened, hence emptied, and a write under it raises \<open>e\<close>
  (\<^verbatim>\<open>json.dump\<close> finding the dictionary changed by another worker, a full disk): the file
  holds the beginning of the text only.
\<close>

datatype file_write = Written | OpenFails py_exception | WriteFails py_exception

subsection \<open>State manager\<close>

text \<open>
  One entry of the state dictionary, as \<^verbatim>\<open>entry.get("status")\<close> and its siblings read
  it: a missing key and a JSON \<^verbatim>\<open>null\<close> both read as \<^verbatim>\<open>None\<close>. A status that is
  not a string is read as \<^verbatim>\<open>None\<close> too: like \<^verbatim>\<open>None\<close>, it is neither
  \<^verbatim>\<open>"success"\<close> nor \<^verbatim>\<open>"failed"\<close>, which is all the script asks of a status.
\<close>

record state_entry =
  status :: "string option"
  timestamp :: "string option"
  error :: "string option"

type_synonym state_dict = "string \<rightharpoonup> state_entry"

text \<open>The Python type of a parsed JSON value that is not an object.\<close>

datatype json_kind = JNull | JBool | JInt | JFloat | JString | JArray

fun type_name :: "json_kind \<Rightarrow> string" where
  "type_name JNull = ''NoneType''"
| "type_name JBool = ''bool''"
| "type_name JInt = ''int''"
| "type_name JFloat = ''float''"
| "type_name JString = ''str''"
| "type_name JArray = ''list''"

text \<open>
  What opening and parsing the state file does. \<open>NoFile\<close>: \<^verbatim>\<open>os.path.exists\<close> is false.
  \<open>RaisesIOError\<close>: \<^verbatim>\<open>open\<close> or the read raises \<^verbatim>\<open>IOError\<close>. \<open>RaisesJSONDecodeError\<close>:
  the text is not JSON. \<open>RaisesOther e\<close>: any exception outside these two classes, such as
  the \<^verbatim>\<open>UnicodeDecodeError\<close> of a file that is not text in the expected encoding.
  \<open>Json d\<close>: the text is JSON for an object, read as the dictionary \<open>d\<close> of its entries;
  \<^verbatim>\<open>json.dump\<close> writes such a file and \<^verbatim>\<open>json.load\<close> returns \<open>d\<close> from it.
  \<open>JsonOther k\<close>: the text is JSON for a value that is not an object.
  The entries of an object are taken to be objects themselves (or values that count as
  false); an object with another kind of entry is not represented.
\<close>

datatype state_file =
    NoFile
  | RaisesIOError
  | RaisesJSONDecodeError
  | RaisesOther py_exception
  | Json state_dict
  | JsonOther json_kind

record StateManager =
  state_file :: state_file
  state :: state_dict

text \<open>What \<^verbatim>\<open>_load\<close> returns: a dictionary, or whatever else the JSON text stood for.\<close>

datatype loaded = Dict state_dict | Other json_kind

fun load_state :: "state_file \<Rightarrow> py_exception + loaded" where
  "load_state NoFile = Inr (Dict Map.empty)"
| "load_state RaisesIOError = Inr (Dict Map.empty)"
| "load_state RaisesJSONDecodeError = Inr (Dict Map.empty)"
| "load_state (RaisesOther e) = Inl e"
| "load_state (Json d) = Inr (Dict d)"
| "load_state (JsonOther k) = Inr (Other k)"

text \<open>
  The constructor. \<open>Inr\<close>: a state manager whose state is a dictionary. \<open>Inl\<close>: there is
  none, because \<^verbatim>\<open>_load\<close> raised and the constructor with it, or because the state it
  returned is not a dictionary, so that every later \<^verbatim>\<open>get_status\<close> and every later
  \<^verbatim>\<open>mark_success\<close> or \<^verbatim>\<open>mark_failed\<close> on that object raises.
\<close>

datatype no_dict = Raises py_exception | NotDict json_kind

definition StateManager_init :: "state_file \<Rightarrow> no_dict + StateManager" where
  "StateManager_init f =
     (case load_state f of
        Inl e \<Rightarrow> Inl (Raises e)
      | Inr (Other k) \<Rightarrow> Inl (NotDict k)
      | Inr (Dict d) \<Rightarrow> Inr \<lparr>state_file = f, state = d\<rparr>)"

text \<open>
  \<^verbatim>\<open>_save\<close>, with what writing the state file does this time. After a write that failed
  under the open file, reading the file back raises \<^verbatim>\<open>JSONDecodeError\<close>: it holds a
  beginning of the JSON text, never its closing brace.
\<close>

definition save_state :: "file_write \<Rightarrow> StateManager \<Rightarrow> py_exception option \<times> StateManager" where
  "save_state wr st =
     (case wr of
        Written \<Rightarrow> (None, st\<lparr>state_file := Json (state st)\<rparr>)
      | OpenFails e \<Rightarrow> (Some e, st)
      | WriteFails e \<Rightarrow> (Some e, st\<lparr>state_file := RaisesJSONDecodeError\<rparr>))"

definition get_status :: "StateManager \<Rightarrow> string \<Rightarrow> string option" where
  "get_status st device_name =
     (case state st device_name of
        None \<Rightarrow> None
      | Some entry \<Rightarrow> status entry)"

text \<open>
  \<^verbatim>\<open>mark_success\<close> and \<^verbatim>\<open>mark_failed\<close> set the entry in the dictionary first and
  call \<^verbatim>\<open>_save\<close> then: when the save raises, the call raises with the entry already set.
\<close>

definition mark_success ::
  "string \<Rightarrow> file_write \<Rightarrow> StateManager \<Rightarrow> string \<Rightarrow> py_exception option \<times> StateManager" where
  "mark_success now wr st device_name =
     save_state wr (st\<lparr>state := (state st)(device_name \<mapsto>
       \<lparr>status = Some ''success'', timestamp = Some now, error = None\<rparr>)\<rparr>)"

definition mark_failed ::
  "string \<Rightarrow> file_write \<Rightarrow> StateManager \<Rightarrow> string \<Rightarrow> string
     \<Rightarrow> py_exception option \<times> StateManager" where
  "mark_failed now wr st device_name err =
     save_state wr (st\<lparr>state := (state st)(device_name \<mapsto>
       \<lparr>status = Some ''failed'', timestamp = Some now, error = Some err\<rparr>)\<rparr>)"

text \<open>The state manager a later process builds from what this one left on disk.\<close>

definition reload :: "StateManager \<Rightarrow> no_dict + StateManager" where
  "reload st = StateManager_init (state_file st)"

subsection \<open>Strings\<close>

abbreviation SQ :: char where "SQ \<equiv> CHR 0x27"
abbreviation DQ :: char where "DQ \<equiv> CHR 0x22"

text \<open>\<^verbatim>\<open>str.isspace\<close> on the code points below 256.\<close>

definition py_isspace :: "char \<Rightarrow> bool" where
  "py_isspace c =
     (let n = (of_char c :: nat)
      in (9 \<le> n \<and> n \<le> 13) \<or> (28 \<le> n \<and> n \<le> 32) \<or> n = 133 \<or> n = 160)"

definition strip :: "string \<Rightarrow> string" where
  "strip s = rev (dropWhile py_isspace (rev (dropWhile py_isspace s)))"

text \<open>\<^verbatim>\<open>str.lower\<close> on the code points below 256.\<close>

definition py_lower :: "char \<Rightarrow> char" where
  "py_lower c =
     (let n = (of_char c :: nat)
      in if (65 \<le> n \<and> n \<le> 90) \<or> (192 \<le> n \<and> n \<le> 222 \<and> n \<noteq> 215)
         then char_of (n + 32) else c)"

fun startswith :: "string \<Rightarrow> string \<Rightarrow> bool" where
  "startswith s [] = True"
| "startswith [] (p # ps) = False"
| "startswith (c # cs) (p # ps) = (c = p \<and> startswith cs ps)"

text \<open>\<^verbatim>\<open>sub in s\<close>.\<close>

fun contains :: "string \<Rightarrow> string \<Rightarrow> bool" where
  "contains [] sub = (sub = [])"
| "contains (c # cs) sub = (startswith (c # cs) sub \<or> contains cs sub)"

text \<open>\<^verbatim>\<open>sep.join(parts)\<close>.\<close>

fun join :: "string \<Rightarrow> string list \<Rightarrow> string" where
  "join sep [] = []"
| "join sep [p] = p"
| "join sep (p # q # ps) = p @ sep @ join sep (q # ps)"

text \<open>\<^verbatim>\<open>s.replace(old, new)\<close> for a pattern \<open>old\<close> of one character.\<close>

definition replace_char :: "char \<Rightarrow> string \<Rightarrow> string \<Rightarrow> string" where
  "replace_char old new s = concat (map (\<lambda>c. if c = old then new else [c]) s)"

text \<open>\<^verbatim>\<open>os.path.join(a, b)\<close> of \<^verbatim>\<open>posixpath\<close>.\<close>

definition path_join :: "string \<Rightarrow> string \<Rightarrow> string" where
  "path_join a b =
     (if startswith b ''/'' then b
      else if a = [] \<or> last a = CHR ''/'' then a @ b
      else a @ ''/'' @ b)"

text \<open>
  \<^verbatim>\<open>repr(s)\<close> of a string, on the code points below 256: double quotes when \<open>s\<close> holds a
  single quote and no double quote, single quotes otherwise; the backslash and the quote
  in use are escaped with a backslash, tab, newline and carriage return written
  \<^verbatim>\<open>\t\<close>, \<^verbatim>\<open>\n\<close>, \<^verbatim>\<open>\r\<close>, and every other character that is not printable written
  \<^verbatim>\<open>\x\<close> and two hexadecimal digits.
\<close>

abbreviation BS :: char where "BS \<equiv> CHR 0x5C"

definition hex_digit :: "nat \<Rightarrow> char" where
  "hex_digit n = (if n < 10 then char_of (48 + n) else char_of (87 + n))"

definition py_printable :: "char \<Rightarrow> bool" where
  "py_printable c =
     (let n = (of_char c :: nat)
      in (32 \<le> n \<and> n \<le> 126) \<or> (161 \<le> n \<and> n \<noteq> 173))"

definition repr_char :: "char \<Rightarrow> char \<Rightarrow> string" where
  "repr_char q c =
     (if c = q \<or> c = BS then [BS, c]
      else if c = CHR 0x09 then [BS, CHR ''t'']
      else if c = CHR 0x0A then [BS, CHR ''n'']
      else if c = CHR 0x0D then [BS, CHR ''r'']
      else if py_printable c then [c]
      else [BS, CHR ''x'', hex_digit (of_char c div 16), hex_digit (of_char c mod 16)])"

definition py_repr :: "string \<Rightarrow> string" where
  "py_repr s =
     (let q = (if SQ \<in> set s \<and> DQ \<notin> set s then DQ else SQ)
      in [q] @ concat (map (repr_char q) s) @ [q])"

subsection \<open>shlex.quote\<close>

text \<open>
  \<^verbatim>\<open>shlex.quote\<close> of the Python standard library, which \<^verbatim>\<open>build_env_string\<close> calls:
  the empty string becomes \<^verbatim>\<open>''\<close>; a string of characters matching
  \<^verbatim>\<open>[\w@%+=:,./-]\<close> (ASCII) only is returned as it is; any other string is put in
  single quotes, each single quote inside it written \<^verbatim>\<open>'"'"'\<close>.
\<close>

definition safe_chars :: string where
  "safe_chars = ''abcdefghijklmnopqrstuvwxyzABCDEFGHIJKLMNOPQRSTUVWXYZ0123456789_@%+=:,./-''"

definition find_unsafe :: "string \<Rightarrow> bool" where
  "find_unsafe s = list_ex (\<lambda>c. c \<notin> set safe_chars) s"

definition quote :: "string \<Rightarrow> string" where
  "quote s =
     (if s = [] then [SQ, SQ]
      else if \<not> find_unsafe s then s
      else [SQ] @ replace_char SQ [SQ, DQ, SQ, DQ, SQ] s @ [SQ])"

subsection \<open>How a POSIX shell reads a command line\<close>

text \<open>
  The yardstick for "inert to the shell": the token recognition of a POSIX shell, cut down
  to what decides whether text is data. \<open>sh_words s\<close> is \<open>Some ws\<close> when the shell reads
  \<open>s\<close> as the literal words \<open>ws\<close> and nothing else: blanks separate words, single quotes
  keep every character, double quotes keep every character but \<^verbatim>\<open>$\<close>, the backquote and
  the backslash. It is \<open>None\<close> as soon as a character that the shell would act upon
  (an operator, an expansion, a substitution, an escape, a pattern or comment character)
  stands unquoted, or a quote is left open.
\<close>

datatype sh_mode = Unquoted | InSingle | InDouble

definition sh_blank :: "char \<Rightarrow> bool" where
  "sh_blank c = (c \<in> set [CHR 0x20, CHR 0x09, CHR 0x0A])"

definition sh_active :: string where
  "sh_active = [CHR ''|'', CHR ''&'', CHR '';'', CHR ''<'', CHR ''>'', CHR ''('', CHR '')'',
                CHR ''$'', CHR 0x60, CHR 0x5C, CHR ''*'', CHR ''?'', CHR ''['', CHR '']'',
                CHR ''#'', CHR ''~'', CHR ''{'', CHR ''}'', CHR ''!'', CHR ''^'']"

fun begun :: "string option \<Rightarrow> string" where
  "begun None = []"
| "begun (Some w) = w"

fun sh_lex :: "sh_mode \<Rightarrow> string option \<Rightarrow> string \<Rightarrow> string list option" where
  "sh_lex Unquoted w [] = Some (case w of None \<Rightarrow> [] | Some x \<Rightarrow> [x])"
| "sh_lex InSingle w [] = None"
| "sh_lex InDouble w [] = None"
| "sh_lex Unquoted w (c # cs) =
     (if sh_blank c then
        (case w of
           None \<Rightarrow> sh_lex Unquoted None cs
         | Some x \<Rightarrow> map_option ((#) x) (sh_lex Unquoted None cs))
      else if c = SQ then sh_lex InSingle (Some (begun w)) cs
      else if c = DQ then sh_lex InDouble (Some (begun w)) cs
      else if c \<in> set sh_active then None
      else sh_lex Unquoted (Some (begun w @ [c])) cs)"
| "sh_lex InSingle w (c # cs) =
     (if c = SQ then sh_lex Unquoted w cs
      else sh_lex InSingle (Some (begun w @ [c])) cs)"
| "sh_lex InDouble w (c # cs) =
     (if c = DQ then sh_lex Unquoted w cs
      else if c \<in> set [CHR ''$'', CHR 0x60, CHR 0x5C] then None
      else sh_lex InDouble (Some (begun w @ [c])) cs)"

definition sh_words :: "string \<Rightarrow> string list option" where
  "sh_words s = sh_lex Unquoted None s"

definition sh_plain :: "char \<Rightarrow> bool" where
  "sh_plain c = (\<not> sh_blank c \<and> c \<noteq> SQ \<and> c \<noteq> DQ \<and> c \<notin> set sh_active)"

text \<open>The text \<open>p\<close>, at the start of a word, is read as the literal word \<open>w\<close>.\<close>

definition reads_as :: "string \<Rightarrow> string \<Rightarrow> bool" where
  "reads_as p w = (\<forall>rest. sh_lex Unquoted None (p @ rest) = sh_lex Unquoted (Some w) rest)"

subsection \<open>Devices and the environment string\<close>

record Device =
  device_name :: string
  platform :: string
  tailscale_ip :: string
  location :: string
  client :: string
  chain :: string
  asset_tag :: string
  latitude :: string
  longitude :: string
  ssh_user :: string
  ssh_password :: string

definition build_env_string :: "Device \<Rightarrow> string \<Rightarrow> string" where
  "build_env_string device zabbix_token =
     join '' ''
       ([''DEVICE_NAME='' @ quote (device_name device)]
        @ (if location device \<noteq> [] then [''LOCATION='' @ quote (location device)] else [])
        @ (if client device \<noteq> [] then [''CLIENT='' @ quote (client device)] else [])
        @ (if chain device \<noteq> [] then [''CHAIN='' @ quote (chain device)] else [])
        @ (if asset_tag device \<noteq> [] then [''ASSET_TAG='' @ quote (asset_tag device)] else [])
        @ (if latitude device \<noteq> [] then [''LATITUDE='' @ quote (latitude device)] else [])
        @ (if longitude device \<noteq> [] then [''LONGITUDE='' @ quote (longitude device)] else [])
        @ (if zabbix_token \<noteq> [] then [''ZABBIX_API_TOKEN='' @ quote zabbix_token] else []))"

subsection \<open>Constants\<close>

definition GITHUB_RAW_BASE :: string where
  "GITHUB_RAW_BASE = ''https://raw.githubusercontent.com/emilejacobs/zabbix-rollout/main/scripts''"

definition INSTALL_SCRIPTS :: "(string \<times> string) list" where
  "INSTALL_SCRIPTS =
     [(''raspberrypi'', ''install-zabbix-agent-raspberrypi.sh''),
      (''radxa'', ''install-zabbix-agent-radxa.sh''),
      (''macos'', ''install-zabbix-agent-macos.sh'')]"

definition SSH_OPTIONS :: "string list" where
  "SSH_OPTIONS =
     [''-o'', ''StrictHostKeyChecking=no'',
      ''-o'', ''UserKnownHostsFile=/dev/null'',
      ''-o'', ''ConnectTimeout=10'',
      ''-o'', ''ServerAliveInterval=30'',
      ''-o'', ''ServerAliveCountMax=3'',
      ''-o'', ''LogLevel=ERROR'']"

text \<open>
  The property \<^verbatim>\<open>Device.install_script\<close>: \<^verbatim>\<open>INSTALL_SCRIPTS[self.platform]\<close> raises
  \<^verbatim>\<open>KeyError\<close> on a platform outside the table; the text of a \<^verbatim>\<open>KeyError\<close> is the
  \<^verbatim>\<open>repr\<close> of its key.
\<close>

definition install_script :: "Device \<Rightarrow> py_exception + string" where
  "install_script device =
     (case map_of INSTALL_SCRIPTS (platform device) of
        None \<Rightarrow> Inl (OtherException (py_repr (platform device)))
      | Some script \<Rightarrow> Inr script)"

record DeploymentResult =
  result_device_name :: string
  success :: bool
  duration_seconds :: real
  error_message :: string
  log_file :: string

subsection \<open>What a deployment meets outside the script\<close>

record CompletedProcess =
  returncode :: int
  stdout :: string
  stderr :: string

text \<open>
  \<^verbatim>\<open>subprocess.run(argv, env=..., capture_output=True, text=True, timeout=t)\<close>: from the
  argument vector, the value of \<^verbatim>\<open>SSHPASS\<close> in the environment and the timeout to the
  completed process, or to the exception raised (\<^verbatim>\<open>TimeoutExpired\<close> when the timeout
  runs out, \<^verbatim>\<open>OSError\<close> and others).
\<close>

type_synonym subprocess = "string list \<Rightarrow> string \<Rightarrow> nat \<Rightarrow> py_exception + CompletedProcess"

text \<open>
  What one call of \<^verbatim>\<open>deploy_and_record\<close> meets: the subprocesses it starts, the local
  files that exist, \<^verbatim>\<open>time.time()\<close> on entry and at the return,
  \<^verbatim>\<open>datetime.now().isoformat()\<close> when the log and when the state entry is written, and
  what writing the log file and writing the state file does (the call writes each at
  most once).
\<close>

record os_env =
  subprocess_run :: subprocess
  path_exists :: "string \<Rightarrow> bool"
  time_start :: real
  time_end :: real
  now_log :: string
  now_state :: string
  log_write :: file_write
  state_write :: file_write

text \<open>
  The log file of a device, by the fields \<^verbatim>\<open>write_log\<close> writes into it; empty output
  is written as the placeholder. A log file whose writing failed under the open file is
  \<open>Truncated\<close>.
\<close>

record log_entry =
  log_device_name :: string
  log_platform :: string
  log_ip :: string
  log_location :: string
  log_timestamp :: string
  log_exit_code :: int
  log_stdout :: string
  log_stderr :: string

datatype log_content = Complete log_entry | Truncated

type_synonym log_dir = "string \<rightharpoonup> log_content"

definition write_log ::
  "os_env \<Rightarrow> log_dir \<Rightarrow> string \<Rightarrow> Device \<Rightarrow> int \<Rightarrow> string \<Rightarrow> string
     \<Rightarrow> py_exception option \<times> log_dir" where
  "write_log env lg log_path device exit_code out err =
     (case log_write env of
        Written \<Rightarrow>
          (None,
           lg(log_path \<mapsto> Complete
             \<lparr>log_device_name = device_name device,
              log_platform = platform device,
              log_ip = tailscale_ip device,
              log_location = location device,
              log_timestamp = now_log env,
              log_exit_code = exit_code,
              log_stdout = (if out \<noteq> [] then out else ''(empty)'' @ [CHR 0x0A]),
              log_stderr = (if err \<noteq> [] then err else ''(empty)'' @ [CHR 0x0A])\<rparr>))
      | OpenFails e \<Rightarrow> (Some e, lg)
      | WriteFails e \<Rightarrow> (Some e, lg(log_path \<mapsto> Truncated)))"

subsection \<open>SSH executor\<close>

record SSHExecutor =
  sshpass_path :: string

definition test_connectivity :: "os_env \<Rightarrow> SSHExecutor \<Rightarrow> Device \<Rightarrow> bool \<times> string" where
  "test_connectivity env ssh device =
     (case subprocess_run env
             ([sshpass_path ssh, ''-e'', ''ssh''] @ SSH_OPTIONS @
              [ssh_user device @ ''@'' @ tailscale_ip device, ''echo ok''])
             (ssh_password device) 15 of
        Inr result \<Rightarrow>
          if returncode result = 0 \<and> contains (stdout result) ''ok'' then (True, ''OK'')
          else (let err = strip (stderr result)
                in (False, ''SSH failed: '' @ (if err \<noteq> [] then err else ''unknown error'')))
      | Inl (TimeoutExpired m) \<Rightarrow> (False, ''SSH connection timed out'')
      | Inl (OtherException m) \<Rightarrow> (False, ''SSH error: '' @ m))"

definition scp_file ::
  "os_env \<Rightarrow> SSHExecutor \<Rightarrow> Device \<Rightarrow> string \<Rightarrow> string \<Rightarrow> py_exception + CompletedProcess" where
  "scp_file env ssh device local_path remote_path =
     subprocess_run env
       ([sshpass_path ssh, ''-e'', ''scp''] @ SSH_OPTIONS @
        [local_path, ssh_user device @ ''@'' @ tailscale_ip device @ '':'' @ remote_path])
       (ssh_password device) 60"

definition ssh_run ::
  "os_env \<Rightarrow> SSHExecutor \<Rightarrow> Device \<Rightarrow> string \<Rightarrow> nat \<Rightarrow> py_exception + CompletedProcess" where
  "ssh_run env ssh device command timeout =
     subprocess_run env
       ([sshpass_path ssh, ''-e'', ''ssh''] @ SSH_OPTIONS @
        [ssh_user device @ ''@'' @ tailscale_ip device, command])
       (ssh_password device) timeout"

subsection \<open>Deployment to one device\<close>

text \<open>The error message of a failed execute step (the \<^verbatim>\<open>else\<close> branch that ends \<^verbatim>\<open>deploy_device\<close>).\<close>

definition execute_error :: "string \<Rightarrow> string" where
  "execute_error err_stream =
     (let err = strip err_stream;
          err = (if length err > 200 then ''...'' @ drop (length err - 200) err else err)
      in if err = [] then ''Script exited with non-zero status'' else err)"

text \<open>
  The end of \<^verbatim>\<open>deploy_device\<close>, from the completed execute step on: the duration is
  taken, the log written, the result built and returned. When writing the log raises,
  the function raises there.
\<close>

definition finish_deploy ::
  "os_env \<Rightarrow> log_dir \<Rightarrow> string \<Rightarrow> Device \<Rightarrow> CompletedProcess
     \<Rightarrow> (py_exception + DeploymentResult) \<times> log_dir" where
  "finish_deploy env lg log_path device result =
     (let duration = time_end env - time_start env
      in case write_log env lg log_path device
                (returncode result) (stdout result) (stderr result) of
           (Some e, lg') \<Rightarrow> (Inl e, lg')
         | (None, lg') \<Rightarrow>
             if returncode result = 0
             then (Inr \<lparr>result_device_name = device_name device, success = True,
                        duration_seconds = duration, error_message = [],
                        log_file = log_path\<rparr>, lg')
             else (Inr \<lparr>result_device_name = device_name device, success = False,
                        duration_seconds = duration,
                        error_message = execute_error (stderr result),
                        log_file = log_path\<rparr>, lg'))"

text \<open>
  A failed outcome before the execute step: the log is written, then the result returned;
  when writing the log raises, the function raises there.
\<close>

definition fail_early ::
  "os_env \<Rightarrow> log_dir \<Rightarrow> string \<Rightarrow> Device \<Rightarrow> int \<Rightarrow> string \<Rightarrow> string
     \<Rightarrow> (py_exception + DeploymentResult) \<times> log_dir" where
  "fail_early env lg log_path device exit_code out msg =
     (case write_log env lg log_path device exit_code out msg of
        (Some e, lg') \<Rightarrow> (Inl e, lg')
      | (None, lg') \<Rightarrow>
          (Inr \<lparr>result_device_name = device_name device, success = False,
                 duration_seconds = time_end env - time_start env, error_message = msg,
                 log_file = log_path\<rparr>, lg'))"

text \<open>The command lines of the execute step, and the path the script is pushed to.\<close>

definition remote_script :: string where
  "remote_script = ''/tmp/install-zabbix-agent.sh''"

definition sudo_prefix :: "Device \<Rightarrow> string" where
  "sudo_prefix device = (if platform device = ''macos'' then ''sudo -E'' else ''sudo'')"

definition github_command :: "Device \<Rightarrow> string \<Rightarrow> string \<Rightarrow> string" where
  "github_command device env_vars script =
     (let github_url = GITHUB_RAW_BASE @ ''/'' @ script
      in ''curl -fsSL '' @ quote github_url @ '' | '' @ sudo_prefix device
         @ '' '' @ env_vars @ '' bash'')"

definition local_command :: "Device \<Rightarrow> string \<Rightarrow> string" where
  "local_command device env_vars =
     sudo_prefix device @ '' '' @ env_vars @ '' bash '' @ remote_script"

text \<open>
  \<^verbatim>\<open>deploy_device\<close>, in three parts: the branch for GitHub mode, the branch for local
  mode, and the function itself. An exception raised on the way (by \<^verbatim>\<open>scp_file\<close>, by
  the \<^verbatim>\<open>ssh_run\<close> of the install command, by \<^verbatim>\<open>install_script\<close>, by writing the
  log) leaves the function at once: \<open>Inl\<close>. The clean-up \<^verbatim>\<open>ssh_run\<close> is inside
  \<^verbatim>\<open>try ... except Exception: pass\<close>, so neither its result nor its exception matters.
\<close>

definition deploy_github ::
  "os_env \<Rightarrow> log_dir \<Rightarrow> string \<Rightarrow> Device \<Rightarrow> SSHExecutor \<Rightarrow> string
     \<Rightarrow> (py_exception + DeploymentResult) \<times> log_dir" where
  "deploy_github env lg log_path device ssh env_vars =
     (case install_script device of
        Inl e \<Rightarrow> (Inl e, lg)
      | Inr script \<Rightarrow>
          (case ssh_run env ssh device (github_command device env_vars script) 600 of
             Inl e \<Rightarrow> (Inl e, lg)
           | Inr result \<Rightarrow> (finish_deploy env lg log_path device result)))"

definition deploy_local ::
  "os_env \<Rightarrow> log_dir \<Rightarrow> string \<Rightarrow> Device \<Rightarrow> SSHExecutor \<Rightarrow> string \<Rightarrow> string
     \<Rightarrow> (py_exception + DeploymentResult) \<times> log_dir" where
  "deploy_local env lg log_path device ssh scripts_dir env_vars =
     (case install_script device of
        Inl e \<Rightarrow> (Inl e, lg)
      | Inr script \<Rightarrow>
          (let local_script = path_join scripts_dir script
           in if \<not> path_exists env local_script then
                (fail_early env lg log_path device 1 []
                            (''Local script not found: '' @ local_script))
              else
                (case scp_file env ssh device local_script remote_script of
                   Inl e \<Rightarrow> (Inl e, lg)
                 | Inr scp_result \<Rightarrow>
                     if returncode scp_result \<noteq> 0 then
                       (fail_early env lg log_path device
                                   (returncode scp_result) (stdout scp_result)
                                   (''SCP failed: '' @ strip (stderr scp_result)))
                     else
                       (case ssh_run env ssh device (local_command device env_vars) 600 of
                          Inl e \<Rightarrow> (Inl e, lg)
                        | Inr result \<Rightarrow>
                            (case ssh_run env ssh device (''rm -f '' @ remote_script) 10 of
                               Inl _ \<Rightarrow> (finish_deploy env lg log_path device result)
                             | Inr _ \<Rightarrow> (finish_deploy env lg log_path device result))))))"

definition deploy_device ::
  "os_env \<Rightarrow> log_dir \<Rightarrow> Device \<Rightarrow> SSHExecutor \<Rightarrow> string \<Rightarrow> string \<Rightarrow> string \<Rightarrow> bool
     \<Rightarrow> (py_exception + DeploymentResult) \<times> log_dir" where
  "deploy_device env lg device ssh zabbix_token scripts_dir log_dir use_github =
     (let log_path = path_join log_dir (device_name device @ ''.log'');
          probe = test_connectivity env ssh device
      in if \<not> fst probe then
           (fail_early env lg log_path device 1 [] (snd probe))
         else
           (let env_vars = build_env_string device zabbix_token
            in if use_github
               then deploy_github env lg log_path device ssh env_vars
               else deploy_local env lg log_path device ssh scripts_dir env_vars))"

text \<open>
  The mutable world of a run: the state manager (its dictionary in memory and the state
  file) and the log directory.
\<close>

record world =
  sm :: StateManager
  logs :: log_dir

definition deploy_and_record ::
  "os_env \<Rightarrow> world \<Rightarrow> Device \<Rightarrow> SSHExecutor \<Rightarrow> string \<Rightarrow> string \<Rightarrow> string \<Rightarrow> bool
     \<Rightarrow> (py_exception + DeploymentResult) \<times> world" where
  "deploy_and_record env w device ssh zabbix_token scripts_dir log_dir use_github =
     (case deploy_device env (logs w) device ssh zabbix_token scripts_dir log_dir use_github of
        (Inl e, lg') \<Rightarrow> (Inl e, w\<lparr>logs := lg'\<rparr>)
      | (Inr result, lg') \<Rightarrow>
          (case (if success result
                 then mark_success (now_state env) (state_write env) (sm w) (device_name device)
                 else mark_failed (now_state env) (state_write env) (sm w) (device_name device)
                        (error_message result)) of
             (Some e, st') \<Rightarrow> (Inl e, \<lparr>sm = st', logs = lg'\<rparr>)
           | (None, st') \<Rightarrow> (Inr result, \<lparr>sm = st', logs = lg'\<rparr>)))"

subsection \<open>Command line and surroundings of a run\<close>

record Args =
  arg_inventory :: string
  arg_token :: "string option"
  arg_scripts_dir :: string
  arg_log_dir :: string
  arg_device :: "string option"
  arg_platform :: "string option"
  arg_github :: bool
  arg_dry_run :: bool
  arg_check :: bool
  arg_resume :: bool
  arg_retry_failed :: bool
  arg_force :: bool
  arg_parallel :: int

text \<open>Truth value of an optional string: \<^verbatim>\<open>None\<close> and the empty string are false.\<close>

fun truthy :: "string option \<Rightarrow> bool" where
  "truthy None = False"
| "truthy (Some s) = (s \<noteq> [])"

text \<open>
  How the process ends: \<^verbatim>\<open>sys.exit(code)\<close> after a message that tells why (its
  first line, without the counts that the script formats into some of them; empty where
  the script prints none), an exception that nothing catches (the interpreter prints the
  traceback and exits with 1), or \<^verbatim>\<open>main\<close> returning (the interpreter exits with 0).
\<close>

datatype ending = SysExit int string | Uncaught py_exception | Returns

fun exit_code :: "ending \<Rightarrow> int" where
  "exit_code (SysExit n msg) = n"
| "exit_code (Uncaught e) = 1"
| "exit_code Returns = 0"

text \<open>
  What \<^verbatim>\<open>parser.parse_args()\<close> makes of the command line. \<open>Invalid msg\<close>: an option is
  unknown, \<^verbatim>\<open>--inventory\<close> is missing, \<^verbatim>\<open>--platform\<close> is not one of the choices or
  \<^verbatim>\<open>--parallel\<close> is not an integer; \<^verbatim>\<open>argparse\<close> prints the usage and \<open>msg\<close> and
  exits with 2. \<open>HelpRequested\<close>: \<^verbatim>\<open>-h\<close> was given; the help is printed and the process
  exits with 0. \<open>Namespace args\<close>: the options as parsed, the three directories and files
  with their defaults filled in.
\<close>

datatype command_line = Invalid string | HelpRequested | Namespace Args

text \<open>
  \<^verbatim>\<open>parse_args\<close>: the parser, then the number of concurrent deployments brought into
  1..5.
\<close>

definition parse_args :: "command_line \<Rightarrow> ending + Args" where
  "parse_args given =
     (case given of
        Invalid msg \<Rightarrow> Inl (SysExit 2 msg)
      | HelpRequested \<Rightarrow> Inl (SysExit 0 ''usage: deploy-agents.py'')
      | Namespace args \<Rightarrow>
          if arg_parallel args < 1 then Inr (args\<lparr>arg_parallel := 1\<rparr>)
          else if arg_parallel args > 5 then Inr (args\<lparr>arg_parallel := 5\<rparr>)
          else Inr args)"

text \<open>
  What \<^verbatim>\<open>parse_inventory\<close> does with an inventory file that exists: it leaves the
  process with \<^verbatim>\<open>sys.exit(1)\<close> when the file has no header row or when required
  columns (here: their names, joined) are missing; it raises when the file cannot be
  read as text or a row has more fields than the header (the normalisation of the row
  then calls \<^verbatim>\<open>strip\<close> on \<^verbatim>\<open>None\<close>); otherwise it returns the rows that pass
  \<^verbatim>\<open>Device.validate\<close>.
\<close>

datatype inventory_file =
    NoHeader
  | MissingColumns string
  | ParseRaises py_exception
  | Rows "Device list"

text \<open>
  Everything a run of \<^verbatim>\<open>main\<close> meets: the environment variable and the two answers of
  the token dialogue (\<open>None\<close>: \<^verbatim>\<open>getpass\<close> raised \<^verbatim>\<open>EOFError\<close> or
  \<^verbatim>\<open>KeyboardInterrupt\<close>), \<^verbatim>\<open>shutil.which\<close>, the inventory, the state file and the
  log directory as they are at the start, the answer to the confirmation prompt, the
  exception that \<^verbatim>\<open>os.makedirs\<close> raises on the log directory (\<open>None\<close>: it returns),
  what the worker started for the \<open>i\<close>-th device meets, and the order in which the
  futures of a parallel run complete.
\<close>

record main_env =
  environ_token :: string
  token_response :: string
  getpass_token :: "string option"
  which :: "string \<Rightarrow> string option"
  inventory_exists :: bool
  inventory :: inventory_file
  persisted :: state_file
  log_files :: log_dir
  confirm_response :: string
  makedirs :: "py_exception option"
  worker_env :: "nat \<Rightarrow> os_env"
  completion :: "nat list"

subsection \<open>The steps of main before the deployment\<close>

definition get_token :: "Args \<Rightarrow> main_env \<Rightarrow> ending + string" where
  "get_token args e =
     (let zabbix_token = (if truthy (arg_token args) then begun (arg_token args)
                          else environ_token e)
      in if zabbix_token = [] \<and> \<not> arg_dry_run args \<and> \<not> arg_check args then
           (if map py_lower (strip (token_response e)) \<noteq> ''y'' then
              (case getpass_token e of
                 None \<Rightarrow> Inl (SysExit 1 ''Aborted.'')
               | Some t \<Rightarrow> Inr t)
            else Inr zabbix_token)
         else Inr zabbix_token)"

definition check_prerequisites :: "main_env \<Rightarrow> bool \<Rightarrow> ending + string" where
  "check_prerequisites e dry_run =
     (let sshpass = which e ''sshpass''
      in if \<not> truthy sshpass \<and> \<not> dry_run then
           Inl (SysExit 1 ''ERROR: sshpass is not installed.'')
         else if \<not> dry_run \<and> \<not> truthy (which e ''ssh'') then
           Inl (SysExit 1 ''ERROR: ssh is not installed'')
         else if \<not> dry_run \<and> \<not> truthy (which e ''scp'') then
           Inl (SysExit 1 ''ERROR: scp is not installed'')
         else Inr (if truthy sshpass then begun sshpass else ''sshpass''))"

definition load_inventory :: "Args \<Rightarrow> main_env \<Rightarrow> ending + Device list" where
  "load_inventory args e =
     (if \<not> inventory_exists e then
        Inl (SysExit 1 (''ERROR: Inventory file not found: '' @ arg_inventory args))
      else
        (case inventory e of
           NoHeader \<Rightarrow> Inl (SysExit 1 ''ERROR: CSV file is empty or has no header row'')
         | MissingColumns missing \<Rightarrow>
             Inl (SysExit 1 (''ERROR: CSV is missing required columns: '' @ missing))
         | ParseRaises exn \<Rightarrow> Inl (Uncaught exn)
         | Rows devices \<Rightarrow>
             if devices = [] then Inl (SysExit 1 ''ERROR: No valid devices found in inventory'')
             else Inr devices))"

definition filter_device :: "Args \<Rightarrow> Device list \<Rightarrow> ending + Device list" where
  "filter_device args devices =
     (if truthy (arg_device args) then
        (let devices' = filter (\<lambda>d. device_name d = begun (arg_device args)) devices
         in if devices' = [] then
              Inl (SysExit 1 (''ERROR: Device '' @ [SQ] @ begun (arg_device args) @ [SQ]
                              @ '' not found in inventory''))
            else Inr devices')
      else Inr devices)"

definition filter_platform :: "Args \<Rightarrow> Device list \<Rightarrow> ending + Device list" where
  "filter_platform args devices =
     (if truthy (arg_platform args) then
        (let devices' = filter (\<lambda>d. platform d = begun (arg_platform args)) devices
         in if devices' = [] then
              Inl (SysExit 1 (''ERROR: No devices found for platform '' @ [SQ]
                              @ begun (arg_platform args) @ [SQ]))
            else Inr devices')
      else Inr devices)"

text \<open>Step 5 of \<^verbatim>\<open>main\<close>: resume and retry against the state manager.\<close>

definition apply_resume_retry ::
  "Args \<Rightarrow> StateManager \<Rightarrow> Device list \<Rightarrow> ending + Device list" where
  "apply_resume_retry args st devices =
     (let selection =
            (if arg_resume args then
               Inr (filter (\<lambda>d. get_status st (device_name d) \<noteq> Some ''success'') devices)
             else if arg_retry_failed args then
               (let devices' = filter (\<lambda>d. get_status st (device_name d) = Some ''failed'')
                                 devices
                in if devices' = [] then Inl (SysExit 0 ''No failed devices to retry.'')
                   else Inr devices')
             else Inr devices)
      in case selection of
           Inl stop \<Rightarrow> Inl stop
         | Inr devices' \<Rightarrow>
             if devices' = [] then
               Inl (SysExit 0 ''No devices to deploy after applying filters.'')
             else Inr devices')"

subsection \<open>Step 12 of main: the deployment\<close>

text \<open>The outcome that both loops put in the place of a worker's exception.\<close>

definition unexpected :: "Device \<Rightarrow> py_exception \<Rightarrow> DeploymentResult" where
  "unexpected device e =
     \<lparr>result_device_name = device_name device, success = False, duration_seconds = 0,
      error_message = ''Unexpected error: '' @ exc_str e, log_file = []\<rparr>"

text \<open>
  The body of both loops for one device: the worker \<^verbatim>\<open>deploy_and_record\<close> inside
  \<^verbatim>\<open>try ... except Exception\<close> (in the parallel loop the exception comes out of
  \<^verbatim>\<open>future.result()\<close>), giving the result that is appended to \<^verbatim>\<open>results\<close>.
\<close>

definition attempt ::
  "Args \<Rightarrow> SSHExecutor \<Rightarrow> string \<Rightarrow> os_env \<Rightarrow> world \<Rightarrow> Device \<Rightarrow> DeploymentResult \<times> world" where
  "attempt args ssh zabbix_token env w device =
     (case deploy_and_record env w device ssh zabbix_token
             (arg_scripts_dir args) (arg_log_dir args) (arg_github args) of
        (Inl e, w') \<Rightarrow> (unexpected device e, w')
      | (Inr result, w') \<Rightarrow> (result, w'))"

text \<open>
  The loop over the devices, each with its position in the selected list; \<open>rs\<close> is the
  list \<^verbatim>\<open>results\<close>, appended to once per iteration.
\<close>

fun run_jobs ::
  "Args \<Rightarrow> SSHExecutor \<Rightarrow> string \<Rightarrow> (nat \<Rightarrow> os_env) \<Rightarrow> (nat \<times> Device) list
     \<Rightarrow> DeploymentResult list \<Rightarrow> world \<Rightarrow> DeploymentResult list \<times> world" where
  "run_jobs args ssh tok envs [] rs w = (rs, w)"
| "run_jobs args ssh tok envs ((i, device) # jobs) rs w =
     (case attempt args ssh tok (envs i) w device of
        (result, w') \<Rightarrow> run_jobs args ssh tok envs jobs (rs @ [result]) w')"

definition indexed :: "'a list \<Rightarrow> (nat \<times> 'a) list" where
  "indexed xs = zip [0..<length xs] xs"

text \<open>
  \<^verbatim>\<open>concurrent.futures.as_completed\<close> over the submitted futures: it yields every
  pending future once, in the order in which they complete. The order is the run's to
  choose: \<open>choices\<close> names, at each step, which of the futures still pending completes
  next (by position among them, wrapping around; the first one when the choices run out).
\<close>

function as_completed :: "nat list \<Rightarrow> 'a list \<Rightarrow> 'a list" where
  "as_completed choices [] = []"
| "as_completed choices (p # ps) =
     (let pending = p # ps;
          k = (case choices of [] \<Rightarrow> 0 | c # _ \<Rightarrow> c mod length pending)
      in pending ! k # as_completed (tl choices) (take k pending @ drop (Suc k) pending))"
  by pat_completeness auto
termination
  by (relation "measure (\<lambda>(choices, pending). length pending)")
     (auto split: list.splits simp: less_Suc_eq_le)

text \<open>
  Both branches of step 12. In the parallel branch every worker is submitted to the pool
  at once and the loop takes the futures as they complete; a worker's writes to the state
  manager and to its own log are taken as one step, in completion order.
\<close>

definition deploy_all ::
  "Args \<Rightarrow> SSHExecutor \<Rightarrow> string \<Rightarrow> main_env \<Rightarrow> Device list \<Rightarrow> world
     \<Rightarrow> DeploymentResult list \<times> world" where
  "deploy_all args ssh tok e devices w =
     (if arg_parallel args > 1 then
        run_jobs args ssh tok (worker_env e)
          (as_completed (completion e) (indexed devices)) [] w
      else
        run_jobs args ssh tok (worker_env e) (indexed devices) [] w)"

subsection \<open>main\<close>

text \<open>
  What a run leaves behind: how the process ended, the list \<^verbatim>\<open>results\<close>, and the
  state file and log directory at the end.
\<close>

record main_result =
  ending :: ending
  results :: "DeploymentResult list"
  end_file :: state_file
  end_logs :: log_dir

text \<open>A run that stops before any device is touched.\<close>

definition stopped :: "main_env \<Rightarrow> ending \<Rightarrow> main_result" where
  "stopped e stop =
     \<lparr>ending = stop, results = [], end_file = persisted e, end_logs = log_files e\<rparr>"

text \<open>The jobs of step 12, in the order in which their results are appended.\<close>

definition jobs_of :: "Args \<Rightarrow> main_env \<Rightarrow> Device list \<Rightarrow> (nat \<times> Device) list" where
  "jobs_of args e devices =
     (if arg_parallel args > 1 then as_completed (completion e) (indexed devices)
      else indexed devices)"

text \<open>
  Steps 6 to 11: the check-only mode (with \<^verbatim>\<open>--dry-run\<close> the executor is \<^verbatim>\<open>None\<close>
  and the first connectivity test raises), the dry run, the confirmation prompt and the
  creation of the log directory. \<open>None\<close>: the run goes on to deploy.
\<close>

definition stop_before_deploy :: "Args \<Rightarrow> main_env \<Rightarrow> Device list \<Rightarrow> ending option" where
  "stop_before_deploy args e devices =
     (if arg_check args then
        (if arg_dry_run args then
           Some (Uncaught (OtherException
             ([SQ] @ ''NoneType'' @ [SQ] @ '' object has no attribute ''
              @ [SQ] @ ''test_connectivity'' @ [SQ])))
         else Some (SysExit 0 []))
      else if arg_dry_run args then Some (SysExit 0 ''devices would be deployed.'')
      else if length devices > 1 \<and> map py_lower (strip (confirm_response e)) \<noteq> ''y'' then
        Some (SysExit 0 ''Aborted.'')
      else (case makedirs e of Some exn \<Rightarrow> Some (Uncaught exn) | None \<Rightarrow> None))"

text \<open>Steps 6 to 13: from the selected devices to the end of the process.\<close>

definition deploy_selected ::
  "Args \<Rightarrow> main_env \<Rightarrow> string \<Rightarrow> string \<Rightarrow> StateManager \<Rightarrow> Device list \<Rightarrow> main_result" where
  "deploy_selected args e tok sshpass st devices =
     (case stop_before_deploy args e devices of
        Some stop \<Rightarrow> stopped e stop
      | None \<Rightarrow>
          (case deploy_all args \<lparr>sshpass_path = sshpass\<rparr> tok e devices
                  \<lparr>sm = st, logs = log_files e\<rparr> of
             (rs, w) \<Rightarrow>
               \<lparr>ending = (if list_ex (\<lambda>r. \<not> success r) rs then SysExit 1 [] else Returns),
                results = rs,
                end_file = state_file (sm w),
                end_logs = logs w\<rparr>))"

subsection \<open>The run on a state that is not a dictionary\<close>

text \<open>
  When the state file holds JSON for a value that is not an object, the state manager
  is built around that value. \<^verbatim>\<open>self.state.get(...)\<close> then raises \<^verbatim>\<open>AttributeError\<close>
  and \<^verbatim>\<open>self.state[device_name] = ...\<close> raises \<^verbatim>\<open>TypeError\<close>, each time, and the
  state file is never written.
\<close>

definition no_get :: "json_kind \<Rightarrow> py_exception" where
  "no_get k =
     OtherException ([SQ] @ type_name k @ [SQ] @ '' object has no attribute ''
                     @ [SQ] @ ''get'' @ [SQ])"

definition no_item_assignment :: "json_kind \<Rightarrow> py_exception" where
  "no_item_assignment k =
     (if k = JArray then OtherException ''list indices must be integers or slices, not str''
      else OtherException ([SQ] @ type_name k @ [SQ]
                           @ '' object does not support item assignment''))"

text \<open>
  The loop of step 12 on such a state: every worker deploys, and raises at the latest
  when it records its result.
\<close>

fun run_jobs_not_dict ::
  "Args \<Rightarrow> SSHExecutor \<Rightarrow> string \<Rightarrow> (nat \<Rightarrow> os_env) \<Rightarrow> json_kind \<Rightarrow> (nat \<times> Device) list
     \<Rightarrow> DeploymentResult list \<Rightarrow> log_dir \<Rightarrow> DeploymentResult list \<times> log_dir" where
  "run_jobs_not_dict args ssh tok envs k [] rs lg = (rs, lg)"
| "run_jobs_not_dict args ssh tok envs k ((i, device) # jobs) rs lg =
     (case deploy_device (envs i) lg device ssh tok
             (arg_scripts_dir args) (arg_log_dir args) (arg_github args) of
        (Inl e, lg') \<Rightarrow>
          run_jobs_not_dict args ssh tok envs k jobs (rs @ [unexpected device e]) lg'
      | (Inr result, lg') \<Rightarrow>
          run_jobs_not_dict args ssh tok envs k jobs
            (rs @ [unexpected device (no_item_assignment k)]) lg')"

text \<open>Steps 5 to 13 on such a state.\<close>

definition main_not_dict ::
  "Args \<Rightarrow> main_env \<Rightarrow> string \<Rightarrow> string \<Rightarrow> json_kind \<Rightarrow> Device list \<Rightarrow> main_result" where
  "main_not_dict args e tok sshpass k devices =
     (if devices \<noteq> [] \<and> (arg_resume args \<or> arg_retry_failed args) then
        stopped e (Uncaught (no_get k))
      else if devices = [] then
        stopped e (SysExit 0 (if \<not> arg_resume args \<and> arg_retry_failed args
                              then ''No failed devices to retry.''
                              else ''No devices to deploy after applying filters.''))
      else
        (case stop_before_deploy args e devices of
           Some stop \<Rightarrow> stopped e stop
         | None \<Rightarrow>
             (case run_jobs_not_dict args \<lparr>sshpass_path = sshpass\<rparr> tok (worker_env e) k
                     (jobs_of args e devices) [] (log_files e) of
                (rs, lg) \<Rightarrow>
                  \<lparr>ending = (if list_ex (\<lambda>r. \<not> success r) rs then SysExit 1 [] else Returns),
                   results = rs,
                   end_file = persisted e,
                   end_logs = lg\<rparr>)))"

subsection \<open>main, from the command line to the end of the process\<close>

definition main :: "command_line \<Rightarrow> main_env \<Rightarrow> main_result" where
  "main given e =
     (case parse_args given of
        Inl stop \<Rightarrow> stopped e stop
      | Inr args \<Rightarrow>
      (case get_token args e of
           Inl stop \<Rightarrow> stopped e stop
         | Inr zabbix_token \<Rightarrow>
      (case check_prerequisites e (arg_dry_run args) of
           Inl stop \<Rightarrow> stopped e stop
         | Inr sshpass \<Rightarrow>
      (case load_inventory args e of
           Inl stop \<Rightarrow> stopped e stop
         | Inr devices \<Rightarrow>
      (case filter_device args devices of
           Inl stop \<Rightarrow> stopped e stop
         | Inr devices \<Rightarrow>
      (case filter_platform args devices of
           Inl stop \<Rightarrow> stopped e stop
         | Inr devices \<Rightarrow>
      (case StateManager_init (persisted e) of
           Inl (Raises exn) \<Rightarrow> stopped e (Uncaught exn)
         | Inl (NotDict k) \<Rightarrow> main_not_dict args e zabbix_token sshpass k devices
         | Inr st \<Rightarrow>
      (case apply_resume_retry args st devices of
           Inl stop \<Rightarrow> stopped e stop
         | Inr devices \<Rightarrow> deploy_selected args e zabbix_token sshpass st devices))))))))"

subsection \<open>What a worker returns\<close>

text \<open>
  What the worker \<^verbatim>\<open>deploy_and_record\<close> started for a device returns or raises. The
  definition runs it in a world with no state and no logs; it returns or raises the same
  in every other world, since it reads neither the state nor the logs it finds
  (lemma \<open>worker_any_world\<close>).
\<close>

definition blank_world :: world where
  "blank_world = \<lparr>sm = \<lparr>state_file = NoFile, state = Map.empty\<rparr>, logs = Map.empty\<rparr>"

definition worker ::
  "Args \<Rightarrow> SSHExecutor \<Rightarrow> string \<Rightarrow> os_env \<Rightarrow> Device \<Rightarrow> py_exception + DeploymentResult" where
  "worker args ssh tok env device =
     fst (deploy_and_record env blank_world device ssh tok
            (arg_scripts_dir args) (arg_log_dir args) (arg_github args))"

text \<open>The entry of \<^verbatim>\<open>results\<close> for a device: the worker's result, or the stand-in for its exception.\<close>

definition recorded :: "Args \<Rightarrow> SSHExecutor \<Rightarrow> string \<Rightarrow> os_env \<Rightarrow> Device \<Rightarrow> DeploymentResult" where
  "recorded args ssh tok env device =
     (case worker args ssh tok env device of
        Inl e \<Rightarrow> unexpected device e
      | Inr result \<Rightarrow> result)"

text \<open>The state file holds the dictionary that is in memory.\<close>

definition in_step :: "StateManager \<Rightarrow> bool" where
  "in_step st = (load_state (state_file st) = Inr (Dict (state st)))"


subsection \<open>An example inventory\<close>

definition rpi :: Device where
  "rpi = \<lparr>device_name = ''rpi-london-001'', platform = ''raspberrypi'',
          tailscale_ip = ''100.64.0.11'', location = ''London; reboot'',
          client = ''O'Neill $(id)'', chain = [], asset_tag = ''A-17'',
          latitude = ''51.5'', longitude = ''-0.12'',
          ssh_user = ''pi'', ssh_password = ''raspberry''\<rparr>"

definition mac :: Device where
  "mac = \<lparr>device_name = ''mac-paris-002'', platform = ''macos'',
          tailscale_ip = ''100.64.0.12'', location = ''Paris'',
          client = ''Acme'', chain = ''North'', asset_tag = [],
          latitude = [], longitude = [],
          ssh_user = ''admin'', ssh_password = ''secret''\<rparr>"

definition rock :: Device where
  "rock = \<lparr>device_name = ''rock-berlin-003'', platform = ''radxa'',
           tailscale_ip = ''100.64.0.13'', location = ''Berlin'',
           client = [], chain = [], asset_tag = [],
           latitude = [], longitude = [],
           ssh_user = ''rock'', ssh_password = ''rock''\<rparr>"

subsection \<open>Example surroundings\<close>

definition completed_ok :: CompletedProcess where
  "completed_ok = \<lparr>returncode = 0, stdout = ''ok'', stderr = []\<rparr>"

definition apt_failure :: CompletedProcess where
  "apt_failure = \<lparr>returncode = 100, stdout = ''Reading package lists...'',
                   stderr = ''E: Unable to locate package zabbix-agent2'' @ [CHR 0x0A]\<rparr>"

text \<open>Every subprocess succeeds, and the log and the state file can be written.\<close>

definition env_ok :: os_env where
  "env_ok = \<lparr>subprocess_run = (\<lambda>argv pw t. Inr completed_ok),
             path_exists = (\<lambda>p. True),
             time_start = 100, time_end = 142,
             now_log = ''2026-01-02T10:00:42'', now_state = ''2026-01-02T10:00:43'',
             log_write = Written, state_write = Written\<rparr>"

text \<open>The install command (the subprocess with the timeout of 600 s) exits with 100.\<close>

definition env_install_fails :: os_env where
  "env_install_fails = env_ok\<lparr>subprocess_run :=
     (\<lambda>argv pw t. if t = 600 then Inr apt_failure else Inr completed_ok)\<rparr>"

text \<open>The install command runs into its timeout: \<^verbatim>\<open>subprocess.run\<close> raises.\<close>

definition env_install_hangs :: os_env where
  "env_install_hangs = env_ok\<lparr>subprocess_run :=
     (\<lambda>argv pw t. if t = 600 then Inl (TimeoutExpired ''timed out after 600 seconds'')
                  else Inr completed_ok)\<rparr>"

definition ssh0 :: SSHExecutor where
  "ssh0 = \<lparr>sshpass_path = ''/usr/bin/sshpass''\<rparr>"

text \<open>An error stream of 300 characters and a final newline.\<close>

definition long_stderr :: string where
  "long_stderr = replicate 300 (CHR ''E'') @ [CHR 0x0A]"

definition noisy_failure :: CompletedProcess where
  "noisy_failure = \<lparr>returncode = 1, stdout = [], stderr = long_stderr\<rparr>"

text \<open>The install command fails and leaves \<open>long_stderr\<close> on its error stream.\<close>

definition env_install_noisy :: os_env where
  "env_install_noisy = env_ok\<lparr>subprocess_run :=
     (\<lambda>argv pw t. if t = 600 then Inr noisy_failure else Inr completed_ok)\<rparr>"

text \<open>
  A device whose name holds a slash: its log file would lie in a directory
  \<^verbatim>\<open>logs/site\<close>, which nothing creates.
\<close>

definition site :: Device where
  "site = \<lparr>device_name = ''site/a'', platform = ''raspberrypi'',
           tailscale_ip = ''100.64.0.14'', location = ''Lyon'',
           client = [], chain = [], asset_tag = [],
           latitude = [], longitude = [],
           ssh_user = ''pi'', ssh_password = ''raspberry''\<rparr>"

definition no_log_directory :: py_exception where
  "no_log_directory =
     OtherException (''[Errno 2] No such file or directory: '' @ py_repr ''logs/site/a.log'')"

text \<open>Every subprocess succeeds, and opening the log file raises.\<close>

definition env_log_unwritable :: os_env where
  "env_log_unwritable = env_ok\<lparr>log_write := OpenFails no_log_directory\<rparr>"

text \<open>The install command fails, and opening the log file raises.\<close>

definition env_noisy_log_unwritable :: os_env where
  "env_noisy_log_unwritable = env_install_noisy\<lparr>log_write := OpenFails no_log_directory\<rparr>"

definition state_read_only :: py_exception where
  "state_read_only =
     OtherException (''[Errno 13] Permission denied: '' @ py_repr ''rollout-state.json'')"

text \<open>Every subprocess succeeds and the log is written; opening the state file raises.\<close>

definition env_state_unwritable :: os_env where
  "env_state_unwritable = env_ok\<lparr>state_write := OpenFails state_read_only\<rparr>"



subsection \<open>An example run\<close>

definition ex_args :: Args where
  "ex_args = \<lparr>arg_inventory = ''inventory.csv'', arg_token = None,
              arg_scripts_dir = ''scripts'', arg_log_dir = ''logs'',
              arg_device = None, arg_platform = None,
              arg_github = False, arg_dry_run = False, arg_check = False,
              arg_resume = False, arg_retry_failed = False, arg_force = False,
              arg_parallel = 3\<rparr>"

text \<open>
  Three devices, three workers. The install command fails on the first device and hangs on
  the second; the third device completes first, then the first, then the second.
\<close>

definition ex_env :: main_env where
  "ex_env = \<lparr>environ_token = ''t0k'', token_response = [], getpass_token = None,
             which = (\<lambda>p. Some (''/usr/bin/'' @ p)),
             inventory_exists = True, inventory = Rows [rpi, mac, rock],
             persisted = NoFile, log_files = Map.empty, confirm_response = ''y'',
             makedirs = None,
             worker_env = (\<lambda>i. if i = 0 then env_install_fails
                                else if i = 1 then env_install_hangs else env_ok),
             completion = [2, 0]\<rparr>"

definition ex_world :: world where
  "ex_world = \<lparr>sm = \<lparr>state_file = NoFile, state = Map.empty\<rparr>, logs = Map.empty\<rparr>"

text \<open>A world in which an earlier run has recorded the second device as deployed.\<close>

definition ex_world_after :: world where
  "ex_world_after =
     \<lparr>sm = \<lparr>state_file = Json [''mac-paris-002'' \<mapsto>
                 \<lparr>status = Some ''success'', timestamp = Some ''2026-01-01T09:00:00'',
                  error = None\<rparr>],
             state = [''mac-paris-002'' \<mapsto>
                 \<lparr>status = Some ''success'', timestamp = Some ''2026-01-01T09:00:00'',
                  error = None\<rparr>]\<rparr>,
      logs = Map.empty\<rparr>"

text \<open>A state manager after an earlier run: the first device failed, the second succeeded.\<close>

definition ex_state :: StateManager where
  "ex_state =
     \<lparr>state_file = NoFile,
      state = [''rpi-london-001'' \<mapsto>
                 \<lparr>status = Some ''failed'', timestamp = Some ''2026-01-01T09:00:00'',
                  error = Some ''SCP failed: ''\<rparr>,
               ''mac-paris-002'' \<mapsto>
                 \<lparr>status = Some ''success'', timestamp = Some ''2026-01-01T09:01:00'',
                  error = None\<rparr>]\<rparr>"

text \<open>A run over the first and the third device in which both workers return.\<close>

definition ex_env_returning :: main_env where
  "ex_env_returning = ex_env\<lparr>worker_env := (\<lambda>i. if i = 0 then env_install_fails else env_ok)\<rparr>"


text \<open>What reading a state file that is not valid UTF-8 raises.\<close>

definition undecodable :: py_exception where
  "undecodable =
     OtherException ([SQ] @ ''utf-8'' @ [SQ] @ '' codec can'' @ [SQ]
                     @ ''t decode byte 0xff in position 0: invalid start byte'')"

subsection \<open>State manager: properties\<close>

lemma save_state_returns: "fst (save_state wr st) = None \<longleftrightarrow> wr = Written"
  by (cases wr) (simp_all add: save_state_def)

lemma mark_success_returns: "fst (mark_success now wr st n) = None \<longleftrightarrow> wr = Written"
  by (simp add: mark_success_def save_state_returns)

lemma mark_failed_returns: "fst (mark_failed now wr st n err) = None \<longleftrightarrow> wr = Written"
  by (simp add: mark_failed_def save_state_returns)

lemma mark_success_Written:
  "mark_success now Written st n =
     (None, \<lparr>state_file = Json ((state st)(n \<mapsto>
               \<lparr>status = Some ''success'', timestamp = Some now, error = None\<rparr>)),
             state = (state st)(n \<mapsto>
               \<lparr>status = Some ''success'', timestamp = Some now, error = None\<rparr>)\<rparr>)"
  by (simp add: mark_success_def save_state_def)

lemma mark_failed_Written:
  "mark_failed now Written st n err =
     (None, \<lparr>state_file = Json ((state st)(n \<mapsto>
               \<lparr>status = Some ''failed'', timestamp = Some now, error = Some err\<rparr>)),
             state = (state st)(n \<mapsto>
               \<lparr>status = Some ''failed'', timestamp = Some now, error = Some err\<rparr>)\<rparr>)"
  by (simp add: mark_failed_def save_state_def)

text \<open>
  Whether the write succeeds or not, the entry of the device is replaced in memory and
  no other entry is touched: the assignment comes before \<^verbatim>\<open>_save\<close>.
\<close>

lemma state_mark_success:
  "state (snd (mark_success now wr st n)) = (state st)(n \<mapsto>
      \<lparr>status = Some ''success'', timestamp = Some now, error = None\<rparr>)"
  by (cases wr) (simp_all add: mark_success_def save_state_def)

lemma state_mark_failed:
  "state (snd (mark_failed now wr st n err)) = (state st)(n \<mapsto>
      \<lparr>status = Some ''failed'', timestamp = Some now, error = Some err\<rparr>)"
  by (cases wr) (simp_all add: mark_failed_def save_state_def)

lemma get_status_mark_success:
  "get_status (snd (mark_success now wr st n)) m =
     (if m = n then Some ''success'' else get_status st m)"
  by (simp add: get_status_def state_mark_success)

lemma get_status_mark_failed:
  "get_status (snd (mark_failed now wr st n err)) m =
     (if m = n then Some ''failed'' else get_status st m)"
  by (simp add: get_status_def state_mark_failed)

text \<open>
  Loading fails soft on the conditions that \<^verbatim>\<open>_load\<close> handles: no file, \<^verbatim>\<open>IOError\<close>
  and \<^verbatim>\<open>JSONDecodeError\<close>.
\<close>

lemma load_state_handled:
  "load_state NoFile = Inr (Dict Map.empty)"
  "load_state RaisesIOError = Inr (Dict Map.empty)"
  "load_state RaisesJSONDecodeError = Inr (Dict Map.empty)"
  by simp_all

text \<open>
  C7. A call of \<^verbatim>\<open>mark_success\<close> or \<^verbatim>\<open>mark_failed\<close> that returns has replaced the
  entry of that device by one that reflects this attempt only (status, timestamp, error
  or null), whatever the entry was before, has left every other entry as it was, and
  has written the whole dictionary to the state file: a state manager loaded from that
  file afterwards is the one in memory, so it reports the same status for the device. A
  success recorded after a failure overwrites it, and the other way round. The call
  returns when the file can be written.
\<close>

theorem record_upserts_and_persists:
  "(mark_success now wr st n = (None, st') \<longrightarrow>
      state st' = (state st)(n \<mapsto>
        \<lparr>status = Some ''success'', timestamp = Some now, error = None\<rparr>)
      \<and> state_file st' = Json (state st')
      \<and> reload st' = Inr st'
      \<and> get_status st' n = Some ''success''
      \<and> (mark_failed now' wr' st' n err = (None, st'') \<longrightarrow>
           get_status st'' n = Some ''failed'' \<and> reload st'' = Inr st''))
   \<and> (mark_failed now wr st n err = (None, st') \<longrightarrow>
      state st' = (state st)(n \<mapsto>
        \<lparr>status = Some ''failed'', timestamp = Some now, error = Some err\<rparr>)
      \<and> state_file st' = Json (state st')
      \<and> reload st' = Inr st'
      \<and> get_status st' n = Some ''failed''
      \<and> (mark_success now' wr' st' n = (None, st'') \<longrightarrow>
           get_status st'' n = Some ''success'' \<and> reload st'' = Inr st''))
   \<and> (wr = Written \<longrightarrow>
        fst (mark_success now wr st n) = None \<and> fst (mark_failed now wr st n err) = None)"
proof -
  have s: "state st1 = (state st0)(m \<mapsto>
             \<lparr>status = Some ''success'', timestamp = Some t, error = None\<rparr>)
           \<and> state_file st1 = Json (state st1) \<and> reload st1 = Inr st1
           \<and> get_status st1 m = Some ''success''"
    if "mark_success t w st0 m = (None, st1)" for t w st0 m st1
  proof -
    from that have "fst (mark_success t w st0 m) = None" by simp
    then have "w = Written" by (simp add: mark_success_returns)
    with that have "st1 = snd (mark_success t Written st0 m)" by simp
    then show ?thesis
      by (simp add: mark_success_Written reload_def StateManager_init_def get_status_def)
  qed
  have f: "state st1 = (state st0)(m \<mapsto>
             \<lparr>status = Some ''failed'', timestamp = Some t, error = Some x\<rparr>)
           \<and> state_file st1 = Json (state st1) \<and> reload st1 = Inr st1
           \<and> get_status st1 m = Some ''failed''"
    if "mark_failed t w st0 m x = (None, st1)" for t w st0 m x st1
  proof -
    from that have "fst (mark_failed t w st0 m x) = None" by simp
    then have "w = Written" by (simp add: mark_failed_returns)
    with that have "st1 = snd (mark_failed t Written st0 m x)" by simp
    then show ?thesis
      by (simp add: mark_failed_Written reload_def StateManager_init_def get_status_def)
  qed
  show ?thesis
    using s [of now wr st n st'] s [of now' wr' st' n st'']
          f [of now wr st n err st'] f [of now' wr' st' n err st'']
    by (simp add: mark_success_returns mark_failed_returns)
qed

theorem record_upserts_and_persists_witness:
  "mark_failed ''2026-01-02T10:00:00'' Written
      \<lparr>state_file = NoFile, state = Map.empty\<rparr> ''rpi-london-001'' ''SCP failed: ''
     = (None, \<lparr>state_file = Json [''rpi-london-001'' \<mapsto>
                  \<lparr>status = Some ''failed'', timestamp = Some ''2026-01-02T10:00:00'',
                   error = Some ''SCP failed: ''\<rparr>],
               state = [''rpi-london-001'' \<mapsto>
                  \<lparr>status = Some ''failed'', timestamp = Some ''2026-01-02T10:00:00'',
                   error = Some ''SCP failed: ''\<rparr>]\<rparr>)
   \<and> reload \<lparr>state_file = Json [''rpi-london-001'' \<mapsto>
                  \<lparr>status = Some ''failed'', timestamp = Some ''2026-01-02T10:00:00'',
                   error = Some ''SCP failed: ''\<rparr>],
               state = [''rpi-london-001'' \<mapsto>
                  \<lparr>status = Some ''failed'', timestamp = Some ''2026-01-02T10:00:00'',
                   error = Some ''SCP failed: ''\<rparr>]\<rparr>
     = Inr \<lparr>state_file = Json [''rpi-london-001'' \<mapsto>
                  \<lparr>status = Some ''failed'', timestamp = Some ''2026-01-02T10:00:00'',
                   error = Some ''SCP failed: ''\<rparr>],
               state = [''rpi-london-001'' \<mapsto>
                  \<lparr>status = Some ''failed'', timestamp = Some ''2026-01-02T10:00:00'',
                   error = Some ''SCP failed: ''\<rparr>]\<rparr>
   \<and> get_status (snd (mark_success ''2026-01-02T11:00:00'' Written
        \<lparr>state_file = Json [''rpi-london-001'' \<mapsto>
                  \<lparr>status = Some ''failed'', timestamp = Some ''2026-01-02T10:00:00'',
                   error = Some ''SCP failed: ''\<rparr>],
               state = [''rpi-london-001'' \<mapsto>
                  \<lparr>status = Some ''failed'', timestamp = Some ''2026-01-02T10:00:00'',
                   error = Some ''SCP failed: ''\<rparr>]\<rparr>
        ''rpi-london-001'')) ''rpi-london-001'' = Some ''success''"
  using record_upserts_and_persists
    [where now = "''2026-01-02T10:00:00''" and wr = Written
       and st = "\<lparr>state_file = NoFile, state = Map.empty\<rparr>"
       and n = "''rpi-london-001''" and err = "''SCP failed: ''"
       and now' = "''2026-01-02T11:00:00''" and wr' = Written
       and st' = "\<lparr>state_file = Json [''rpi-london-001'' \<mapsto>
                  \<lparr>status = Some ''failed'', timestamp = Some ''2026-01-02T10:00:00'',
                   error = Some ''SCP failed: ''\<rparr>],
               state = [''rpi-london-001'' \<mapsto>
                  \<lparr>status = Some ''failed'', timestamp = Some ''2026-01-02T10:00:00'',
                   error = Some ''SCP failed: ''\<rparr>]\<rparr>"
       and st'' = "snd (mark_success ''2026-01-02T11:00:00'' Written
        \<lparr>state_file = Json [''rpi-london-001'' \<mapsto>
                  \<lparr>status = Some ''failed'', timestamp = Some ''2026-01-02T10:00:00'',
                   error = Some ''SCP failed: ''\<rparr>],
               state = [''rpi-london-001'' \<mapsto>
                  \<lparr>status = Some ''failed'', timestamp = Some ''2026-01-02T10:00:00'',
                   error = Some ''SCP failed: ''\<rparr>]\<rparr>
        ''rpi-london-001'')"]
  by (simp add: mark_failed_Written mark_success_Written)

subsection \<open>The environment string is inert\<close>

lemma safe_is_plain: "c \<in> set safe_chars \<Longrightarrow> sh_plain c"
  unfolding safe_chars_def sh_plain_def sh_blank_def sh_active_def by auto

lemma lex_plain_run:
  "\<forall>c\<in>set s. sh_plain c \<Longrightarrow>
     sh_lex Unquoted (Some w) (s @ rest) = sh_lex Unquoted (Some (w @ s)) rest"
  by (induction s arbitrary: w) (auto simp: sh_plain_def)

lemma lex_single_body:
  "sh_lex InSingle (Some w) (replace_char SQ [SQ, DQ, SQ, DQ, SQ] s @ SQ # rest)
     = sh_lex Unquoted (Some (w @ s)) rest"
  by (induction s arbitrary: w) (auto simp: replace_char_def sh_blank_def sh_active_def)

text \<open>What \<^verbatim>\<open>shlex.quote\<close> returns is read back by the shell as the string it was given.\<close>

lemma lex_quote:
  "sh_lex Unquoted (Some w) (quote s @ rest) = sh_lex Unquoted (Some (w @ s)) rest"
proof (cases "s = []")
  case True
  then show ?thesis by (simp add: quote_def sh_blank_def)
next
  case False
  show ?thesis
  proof (cases "find_unsafe s")
    case True
    with False show ?thesis
      by (simp add: quote_def sh_blank_def lex_single_body)
  next
    case unsafe: False
    then have "\<forall>c\<in>set s. sh_plain c"
      by (auto simp: find_unsafe_def list_ex_iff intro: safe_is_plain)
    with False unsafe show ?thesis by (simp add: quote_def lex_plain_run)
  qed
qed

lemma reads_as_assignment:
  assumes "k \<noteq> []" and "\<forall>c\<in>set k. sh_plain c"
  shows "reads_as (k @ quote v) (k @ v)"
proof -
  from assms obtain c k' where k: "k = c # k'" and c: "sh_plain c"
    and k': "\<forall>c\<in>set k'. sh_plain c"
    by (cases k) auto
  have "sh_lex Unquoted None ((k @ quote v) @ rest) = sh_lex Unquoted (Some (k @ v)) rest"
    for rest
  proof -
    have "sh_lex Unquoted None ((k @ quote v) @ rest)
        = sh_lex Unquoted (Some [c]) (k' @ quote v @ rest)"
      using c by (simp add: k sh_plain_def)
    also have "\<dots> = sh_lex Unquoted (Some ([c] @ k')) (quote v @ rest)"
      using k' by (rule lex_plain_run)
    also have "\<dots> = sh_lex Unquoted (Some (([c] @ k') @ v)) rest"
      by (rule lex_quote)
    finally show ?thesis by (simp add: k)
  qed
  then show ?thesis by (simp add: reads_as_def)
qed

lemma lex_join:
  "list_all2 reads_as parts ws \<Longrightarrow> sh_lex Unquoted None (join '' '' parts) = Some ws"
proof (induction parts arbitrary: ws rule: induct_list012)
  case 1
  then show ?case by simp
next
  case (2 p)
  then obtain w where w: "ws = [w]" and "reads_as p w"
    by (auto simp: list_all2_Cons1)
  then have "sh_lex Unquoted None (p @ []) = sh_lex Unquoted (Some w) []"
    unfolding reads_as_def by blast
  then show ?case by (simp add: w)
next
  case (3 p q ps)
  then obtain w ws' where ws: "ws = w # ws'" and p: "reads_as p w"
    and rest: "list_all2 reads_as (q # ps) ws'"
    by (auto simp: list_all2_Cons1)
  have "sh_lex Unquoted None (join '' '' (q # ps)) = Some ws'"
    using "3.IH"(2) rest by simp
  moreover have "sh_lex Unquoted None (p @ '' '' @ join '' '' (q # ps))
      = sh_lex Unquoted (Some w) ('' '' @ join '' '' (q # ps))"
    using p unfolding reads_as_def by blast
  ultimately show ?case by (simp add: ws sh_blank_def)
qed

lemma reads_as_parts_append:
  "list_all2 reads_as ps ws \<Longrightarrow> list_all2 reads_as qs vs
     \<Longrightarrow> list_all2 reads_as (ps @ qs) (ws @ vs)"
  by (rule list_all2_appendI)

lemma reads_as_optional:
  "reads_as p w \<Longrightarrow> list_all2 reads_as (if b then [p] else []) (if b then [w] else [])"
  by simp

text \<open>
  C9. Whatever the device's metadata and the token contain, the shell reads the
  environment string built for the remote command as a sequence of literal words, one
  \<^verbatim>\<open>NAME=value\<close> per value included, each value character for character as it stands
  in the inventory (or as the token was given): no character of a value is acted upon by
  the shell, so no value can end its word, start another command or trigger an expansion.
\<close>

theorem build_env_string_inert:
  "sh_words (build_env_string device zabbix_token) = Some
     ([''DEVICE_NAME='' @ device_name device]
      @ (if location device \<noteq> [] then [''LOCATION='' @ location device] else [])
      @ (if client device \<noteq> [] then [''CLIENT='' @ client device] else [])
      @ (if chain device \<noteq> [] then [''CHAIN='' @ chain device] else [])
      @ (if asset_tag device \<noteq> [] then [''ASSET_TAG='' @ asset_tag device] else [])
      @ (if latitude device \<noteq> [] then [''LATITUDE='' @ latitude device] else [])
      @ (if longitude device \<noteq> [] then [''LONGITUDE='' @ longitude device] else [])
      @ (if zabbix_token \<noteq> [] then [''ZABBIX_API_TOKEN='' @ zabbix_token] else []))"
  unfolding sh_words_def build_env_string_def
  by (intro lex_join reads_as_parts_append reads_as_optional list_all2_Cons[THEN iffD2]
        conjI list_all2_Nil[THEN iffD2] reads_as_assignment)
     (simp_all add: sh_plain_def sh_blank_def sh_active_def)

theorem build_env_string_inert_witness:
  "sh_words (build_env_string rpi ''tok en'') = Some
     [''DEVICE_NAME=rpi-london-001'', ''LOCATION=London; reboot'',
      ''CLIENT=O'Neill $(id)'', ''ASSET_TAG=A-17'', ''LATITUDE=51.5'', ''LONGITUDE=-0.12'',
      ''ZABBIX_API_TOKEN=tok en'']"
  using build_env_string_inert [of rpi "''tok en''"] by (simp add: rpi_def)

text \<open>The same values without \<^verbatim>\<open>shlex.quote\<close> are not inert: the shell acts on them.\<close>

lemma unquoted_value_not_inert:
  "sh_words (''LOCATION='' @ location rpi) \<noteq> Some [''LOCATION='' @ location rpi]"
  by (simp add: sh_words_def rpi_def sh_blank_def sh_active_def)

subsection \<open>The outcome of the execute step\<close>

lemma finish_deploy_Written:
  "log_write env = Written \<Longrightarrow>
     fst (finish_deploy env lg p device result)
       = Inr \<lparr>result_device_name = device_name device, success = (returncode result = 0),
              duration_seconds = time_end env - time_start env,
              error_message = (if returncode result = 0 then []
                               else execute_error (stderr result)),
              log_file = p\<rparr>"
  by (simp add: finish_deploy_def write_log_def Let_def)

lemma finish_deploy_raises:
  "log_write env \<noteq> Written \<Longrightarrow> \<exists>exn. fst (finish_deploy env lg p device result) = Inl exn"
  by (cases "log_write env") (simp_all add: finish_deploy_def write_log_def Let_def)

text \<open>
  An attempt reaches the execute step when the probe answers, the platform has an install
  script and, in local mode, the script exists and its copy succeeds. If the execute step
  then completes with \<open>result\<close>, \<^verbatim>\<open>deploy_device\<close> ends as its last lines do on
  \<open>result\<close>.
\<close>

lemma deploy_device_reaches_finish:
  assumes "fst (test_connectivity env ssh device)"
    and "install_script device = Inr script"
    and "use_github \<or>
           (path_exists env (path_join scripts_dir script) \<and>
            (\<exists>scp. scp_file env ssh device (path_join scripts_dir script) remote_script = Inr scp
                   \<and> returncode scp = 0))"
    and "ssh_run env ssh device
           (if use_github then github_command device (build_env_string device tok) script
            else local_command device (build_env_string device tok)) 600 = Inr result"
  shows "deploy_device env lg device ssh tok scripts_dir log_dir use_github
           = finish_deploy env lg (path_join log_dir (device_name device @ ''.log''))
               device result"
proof (cases use_github)
  case True
  with assms show ?thesis
    by (simp add: deploy_device_def deploy_github_def Let_def)
next
  case False
  with assms obtain scp where
    "path_exists env (path_join scripts_dir script)"
    "scp_file env ssh device (path_join scripts_dir script) remote_script = Inr scp"
    "returncode scp = 0"
    by auto
  with False assms(1,2,4) show ?thesis
    by (simp add: deploy_device_def deploy_local_def Let_def split: sum.splits)
qed

text \<open>What the loop records for a worker, by how \<^verbatim>\<open>deploy_device\<close> ended.\<close>

lemma attempt_deploy_raised:
  assumes "fst (deploy_device env (logs w) device ssh tok
             (arg_scripts_dir args) (arg_log_dir args) (arg_github args)) = Inl exn"
  shows "fst (attempt args ssh tok env w device) = unexpected device exn"
proof -
  obtain lg' where "deploy_device env (logs w) device ssh tok
      (arg_scripts_dir args) (arg_log_dir args) (arg_github args) = (Inl exn, lg')"
    using assms by (metis fst_conv surj_pair)
  then show ?thesis
    by (simp add: attempt_def deploy_and_record_def)
qed

lemma attempt_recorded:
  assumes "fst (deploy_device env (logs w) device ssh tok
             (arg_scripts_dir args) (arg_log_dir args) (arg_github args)) = Inr r"
    and "state_write env = Written"
  shows "fst (attempt args ssh tok env w device) = r"
proof -
  obtain lg' where "deploy_device env (logs w) device ssh tok
      (arg_scripts_dir args) (arg_log_dir args) (arg_github args) = (Inr r, lg')"
    using assms(1) by (metis fst_conv surj_pair)
  then show ?thesis
    using assms(2)
    by (simp add: attempt_def deploy_and_record_def mark_success_def mark_failed_def
        save_state_def)
qed

lemma attempt_record_raised:
  assumes "fst (deploy_device env (logs w) device ssh tok
             (arg_scripts_dir args) (arg_log_dir args) (arg_github args)) = Inr r"
    and "state_write env \<noteq> Written"
  shows "\<exists>exn. fst (attempt args ssh tok env w device) = unexpected device exn"
proof -
  obtain lg' where "deploy_device env (logs w) device ssh tok
      (arg_scripts_dir args) (arg_log_dir args) (arg_github args) = (Inr r, lg')"
    using assms(1) by (metis fst_conv surj_pair)
  then show ?thesis
    using assms(2)
    by (cases "state_write env")
       (auto simp: attempt_def deploy_and_record_def mark_success_def mark_failed_def
        save_state_def)
qed

lemma unexpected_failed: "\<not> success (unexpected device exn)"
  by (simp add: unexpected_def)

lemma unexpected_message: "error_message (unexpected device exn) \<noteq> []"
  by (simp add: unexpected_def)

text \<open>
  C3, as the code has it. For every attempt that reaches the execute step and whose
  execute step completes with \<open>result\<close>: when the log file is written, \<^verbatim>\<open>deploy_device\<close>
  returns an outcome whose success flag is true if and only if the exit code of \<open>result\<close>
  is zero; when writing the log raises, or recording the outcome in the state file
  raises, the worker raises and the loop puts the failed outcome \<open>unexpected\<close> in its
  place. So the outcome in \<^verbatim>\<open>results\<close> is a success if and only if the exit code is zero
  and both files were written.
\<close>

theorem success_iff_exit_code_zero:
  assumes "fst (test_connectivity env ssh device)"
    and "install_script device = Inr script"
    and "arg_github args \<or>
           (path_exists env (path_join (arg_scripts_dir args) script) \<and>
            (\<exists>scp. scp_file env ssh device (path_join (arg_scripts_dir args) script)
                         remote_script = Inr scp
                   \<and> returncode scp = 0))"
    and "ssh_run env ssh device
           (if arg_github args then github_command device (build_env_string device tok) script
            else local_command device (build_env_string device tok)) 600 = Inr result"
  shows "(log_write env = Written \<longrightarrow>
            (\<exists>r. fst (deploy_device env lg device ssh tok (arg_scripts_dir args) (arg_log_dir args) (arg_github args)) = Inr r
                 \<and> (success r \<longleftrightarrow> returncode result = 0)))
       \<and> (log_write env = Written \<and> state_write env = Written \<longrightarrow>
            fst (attempt args ssh tok env w device)
              = \<lparr>result_device_name = device_name device, success = (returncode result = 0),
                 duration_seconds = time_end env - time_start env,
                 error_message = (if returncode result = 0 then []
                                  else execute_error (stderr result)),
                 log_file = path_join (arg_log_dir args) (device_name device @ ''.log'')\<rparr>)
       \<and> (log_write env \<noteq> Written \<or> state_write env \<noteq> Written \<longrightarrow>
            (\<exists>exn. fst (attempt args ssh tok env w device) = unexpected device exn))
       \<and> (success (fst (attempt args ssh tok env w device)) \<longleftrightarrow>
            returncode result = 0 \<and> log_write env = Written \<and> state_write env = Written)"
proof -
  let ?p = "path_join (arg_log_dir args) (device_name device @ ''.log'')"
  let ?r = "\<lparr>result_device_name = device_name device, success = (returncode result = 0),
             duration_seconds = time_end env - time_start env,
             error_message = (if returncode result = 0 then []
                              else execute_error (stderr result)),
             log_file = ?p\<rparr>"
  have dd: "deploy_device env lg' device ssh tok
              (arg_scripts_dir args) (arg_log_dir args) (arg_github args)
            = finish_deploy env lg' ?p device result" for lg'
    using assms by (rule deploy_device_reaches_finish)
  have logged: "fst (deploy_device env lg' device ssh tok
                       (arg_scripts_dir args) (arg_log_dir args) (arg_github args)) = Inr ?r"
    if "log_write env = Written" for lg'
    using that by (simp add: dd finish_deploy_Written)
  have both: "fst (attempt args ssh tok env w device) = ?r"
    if "log_write env = Written" "state_write env = Written"
    using logged [OF that(1), of "logs w"] that(2) by (rule attempt_recorded)
  have raised: "\<exists>exn. fst (attempt args ssh tok env w device) = unexpected device exn"
    if "log_write env \<noteq> Written \<or> state_write env \<noteq> Written"
  proof (cases "log_write env = Written")
    case True
    with that have "state_write env \<noteq> Written" by simp
    with logged [OF True, of "logs w"] show ?thesis by (rule attempt_record_raised)
  next
    case False
    then obtain exn where "fst (finish_deploy env (logs w) ?p device result) = Inl exn"
      using finish_deploy_raises by blast
    then have "fst (deploy_device env (logs w) device ssh tok
                 (arg_scripts_dir args) (arg_log_dir args) (arg_github args)) = Inl exn"
      by (simp add: dd)
    then have "fst (attempt args ssh tok env w device) = unexpected device exn"
      by (rule attempt_deploy_raised)
    then show ?thesis ..
  qed
  have iff: "success (fst (attempt args ssh tok env w device)) \<longleftrightarrow>
               returncode result = 0 \<and> log_write env = Written \<and> state_write env = Written"
  proof (cases "log_write env = Written \<and> state_write env = Written")
    case True
    then show ?thesis using both by simp
  next
    case False
    then have "log_write env \<noteq> Written \<or> state_write env \<noteq> Written" by simp
    from raised [OF this] obtain exn
      where "fst (attempt args ssh tok env w device) = unexpected device exn" ..
    with False show ?thesis by (simp add: unexpected_failed)
  qed
  show ?thesis
  proof (intro conjI impI)
    assume "log_write env = Written"
    from logged [OF this, of lg]
    show "\<exists>r. fst (deploy_device env lg device ssh tok (arg_scripts_dir args) (arg_log_dir args) (arg_github args)) = Inr r
            \<and> (success r \<longleftrightarrow> returncode result = 0)"
      by simp
  next
    assume "log_write env = Written \<and> state_write env = Written"
    then show "fst (attempt args ssh tok env w device) = ?r" using both by simp
  next
    assume "log_write env \<noteq> Written \<or> state_write env \<noteq> Written"
    then show "\<exists>exn. fst (attempt args ssh tok env w device) = unexpected device exn"
      by (rule raised)
  next
    show "success (fst (attempt args ssh tok env w device)) \<longleftrightarrow>
            returncode result = 0 \<and> log_write env = Written \<and> state_write env = Written"
      by (rule iff)
  qed
qed

lemma ex_args_fields:
  "arg_github ex_args = False" "arg_scripts_dir ex_args = ''scripts''"
  "arg_log_dir ex_args = ''logs''"
  by (simp_all add: ex_args_def)

lemma reach_rpi:
  assumes "subprocess_run env = (\<lambda>argv pw t. if t = 600 then Inr result else Inr completed_ok)"
    and "path_exists env = (\<lambda>p. True)"
  shows "fst (test_connectivity env ssh0 device)"
    and "arg_github ex_args \<or>
      (path_exists env (path_join (arg_scripts_dir ex_args) script) \<and>
       (\<exists>scp. scp_file env ssh0 device (path_join (arg_scripts_dir ex_args) script)
                 remote_script = Inr scp \<and> returncode scp = 0))"
    and "ssh_run env ssh0 device
             (if arg_github ex_args
              then github_command device (build_env_string device tok) script
              else local_command device (build_env_string device tok)) 600 = Inr result"
  using assms
  by (simp_all add: test_connectivity_def scp_file_def ssh_run_def completed_ok_def
      ex_args_fields)

lemma install_script_raspberrypi:
  "install_script rpi = Inr ''install-zabbix-agent-raspberrypi.sh''"
  "install_script site = Inr ''install-zabbix-agent-raspberrypi.sh''"
  by (simp_all add: install_script_def INSTALL_SCRIPTS_def rpi_def site_def)

lemma env_install_fails_runs:
  "subprocess_run env_install_fails
     = (\<lambda>argv pw t. if t = 600 then Inr apt_failure else Inr completed_ok)"
  "path_exists env_install_fails = (\<lambda>p. True)"
  "log_write env_install_fails = Written" "state_write env_install_fails = Written"
  "time_end env_install_fails - time_start env_install_fails = 42"
  by (simp_all add: env_install_fails_def env_ok_def)

lemma env_install_noisy_runs:
  "subprocess_run env_install_noisy
     = (\<lambda>argv pw t. if t = 600 then Inr noisy_failure else Inr completed_ok)"
  "path_exists env_install_noisy = (\<lambda>p. True)"
  "log_write env_install_noisy = Written" "state_write env_install_noisy = Written"
  "time_end env_install_noisy - time_start env_install_noisy = 42"
  by (simp_all add: env_install_noisy_def env_ok_def)

lemma env_ok_runs:
  "subprocess_run env_ok = (\<lambda>argv pw t. if t = 600 then Inr completed_ok else Inr completed_ok)"
  "path_exists env_ok = (\<lambda>p. True)"
  "log_write env_ok = Written" "state_write env_ok = Written"
  "time_end env_ok - time_start env_ok = 42"
  by (simp_all add: env_ok_def)

lemma env_log_unwritable_runs:
  "subprocess_run env_log_unwritable
     = (\<lambda>argv pw t. if t = 600 then Inr completed_ok else Inr completed_ok)"
  "path_exists env_log_unwritable = (\<lambda>p. True)"
  "log_write env_log_unwritable = OpenFails no_log_directory"
  by (simp_all add: env_log_unwritable_def env_ok_def)

lemma env_noisy_log_unwritable_runs:
  "subprocess_run env_noisy_log_unwritable
     = (\<lambda>argv pw t. if t = 600 then Inr noisy_failure else Inr completed_ok)"
  "path_exists env_noisy_log_unwritable = (\<lambda>p. True)"
  "log_write env_noisy_log_unwritable = OpenFails no_log_directory"
  by (simp_all add: env_noisy_log_unwritable_def env_install_noisy_def env_ok_def)

lemma env_state_unwritable_runs:
  "subprocess_run env_state_unwritable
     = (\<lambda>argv pw t. if t = 600 then Inr completed_ok else Inr completed_ok)"
  "path_exists env_state_unwritable = (\<lambda>p. True)"
  "log_write env_state_unwritable = Written"
  "state_write env_state_unwritable = OpenFails state_read_only"
  by (simp_all add: env_state_unwritable_def env_ok_def)

theorem success_iff_exit_code_zero_witness:
  "log_write env_install_fails = Written \<and> state_write env_install_fails = Written
   \<and> fst (attempt ex_args ssh0 ''t0k'' env_install_fails ex_world rpi)
       = \<lparr>result_device_name = ''rpi-london-001'', success = False, duration_seconds = 42,
          error_message = ''E: Unable to locate package zabbix-agent2'',
          log_file = ''logs/rpi-london-001.log''\<rparr>
   \<and> fst (attempt ex_args ssh0 ''t0k'' env_ok ex_world rpi)
       = \<lparr>result_device_name = ''rpi-london-001'', success = True, duration_seconds = 42,
          error_message = [], log_file = ''logs/rpi-london-001.log''\<rparr>"
proof -
  have m: "execute_error (stderr apt_failure) = ''E: Unable to locate package zabbix-agent2''"
    by (simp add: execute_error_def apt_failure_def strip_def py_isspace_def Let_def)
  have rc: "returncode apt_failure = 100" "returncode completed_ok = 0"
    by (simp_all add: apt_failure_def completed_ok_def)
  have n: "device_name rpi = ''rpi-london-001''"
    by (simp add: rpi_def)
  show ?thesis
    using success_iff_exit_code_zero
            [OF reach_rpi(1) [OF env_install_fails_runs(1,2)] install_script_raspberrypi(1)
                reach_rpi(2) [OF env_install_fails_runs(1,2)]
                reach_rpi(3) [OF env_install_fails_runs(1,2)],
             where w = ex_world and tok = "''t0k''", THEN conjunct2, THEN conjunct1]
          success_iff_exit_code_zero
            [OF reach_rpi(1) [OF env_ok_runs(1,2)] install_script_raspberrypi(1)
                reach_rpi(2) [OF env_ok_runs(1,2)]
                reach_rpi(3) [OF env_ok_runs(1,2)],
             where w = ex_world and tok = "''t0k''", THEN conjunct2, THEN conjunct1]
    by (simp add: env_install_fails_runs env_ok_runs m rc n ex_args_fields path_join_def)
qed

text \<open>
  The claim as the specification states it, for every attempt that reaches the execute
  step, fails when a local file cannot be written. For the device named \<^verbatim>\<open>site/a\<close>
  the execute step exits with 0, opening the log file raises, and the outcome in
  \<^verbatim>\<open>results\<close> is the failure put in the place of the exception. The same happens when
  the log is written and the state file cannot be opened.
\<close>

theorem unwritable_log_counterexample:
  "fst (test_connectivity env_log_unwritable ssh0 site)
   \<and> install_script site = Inr ''install-zabbix-agent-raspberrypi.sh''
   \<and> path_exists env_log_unwritable
        (path_join (arg_scripts_dir ex_args) ''install-zabbix-agent-raspberrypi.sh'')
   \<and> scp_file env_log_unwritable ssh0 site
        (path_join (arg_scripts_dir ex_args) ''install-zabbix-agent-raspberrypi.sh'')
        remote_script = Inr completed_ok
   \<and> ssh_run env_log_unwritable ssh0 site
        (local_command site (build_env_string site ''t0k'')) 600 = Inr completed_ok
   \<and> returncode completed_ok = 0
   \<and> fst (attempt ex_args ssh0 ''t0k'' env_log_unwritable ex_world site)
       = \<lparr>result_device_name = ''site/a'', success = False, duration_seconds = 0,
          error_message = ''Unexpected error: [Errno 2] No such file or directory: ''
                          @ [SQ] @ ''logs/site/a.log'' @ [SQ],
          log_file = []\<rparr>
   \<and> ssh_run env_state_unwritable ssh0 rpi
        (local_command rpi (build_env_string rpi ''t0k'')) 600 = Inr completed_ok
   \<and> fst (attempt ex_args ssh0 ''t0k'' env_state_unwritable ex_world rpi)
       = \<lparr>result_device_name = ''rpi-london-001'', success = False, duration_seconds = 0,
          error_message = ''Unexpected error: [Errno 13] Permission denied: ''
                          @ [SQ] @ ''rollout-state.json'' @ [SQ],
          log_file = []\<rparr>"
proof -
  note r = reach_rpi [OF env_log_unwritable_runs(1,2)]
  have dd: "deploy_device env_log_unwritable (logs ex_world) site ssh0 ''t0k''
              (arg_scripts_dir ex_args) (arg_log_dir ex_args) (arg_github ex_args)
            = finish_deploy env_log_unwritable (logs ex_world)
                (path_join (arg_log_dir ex_args) (device_name site @ ''.log''))
                site completed_ok"
    using r(1) install_script_raspberrypi(2) r(2) r(3)
    by (rule deploy_device_reaches_finish)
  have "fst (deploy_device env_log_unwritable (logs ex_world) site ssh0 ''t0k''
              (arg_scripts_dir ex_args) (arg_log_dir ex_args) (arg_github ex_args))
          = Inl no_log_directory"
    by (simp add: dd finish_deploy_def write_log_def env_log_unwritable_runs Let_def)
  then have a: "fst (attempt ex_args ssh0 ''t0k'' env_log_unwritable ex_world site)
                  = unexpected site no_log_directory"
    by (rule attempt_deploy_raised)
  note r' = reach_rpi [OF env_state_unwritable_runs(1,2)]
  have dd': "deploy_device env_state_unwritable (logs ex_world) rpi ssh0 ''t0k''
              (arg_scripts_dir ex_args) (arg_log_dir ex_args) (arg_github ex_args)
            = finish_deploy env_state_unwritable (logs ex_world)
                (path_join (arg_log_dir ex_args) (device_name rpi @ ''.log''))
                rpi completed_ok"
    using r'(1) install_script_raspberrypi(1) r'(2) r'(3)
    by (rule deploy_device_reaches_finish)
  have b: "fst (attempt ex_args ssh0 ''t0k'' env_state_unwritable ex_world rpi)
             = unexpected rpi state_read_only"
    by (simp add: attempt_def deploy_and_record_def dd' finish_deploy_def write_log_def
        env_state_unwritable_runs Let_def completed_ok_def mark_success_def save_state_def)
  have q: "py_repr ''logs/site/a.log'' = [SQ] @ ''logs/site/a.log'' @ [SQ]"
          "py_repr ''rollout-state.json'' = [SQ] @ ''rollout-state.json'' @ [SQ]"
    by (simp_all add: py_repr_def repr_char_def py_printable_def Let_def)
  have n: "device_name site = ''site/a''" "device_name rpi = ''rpi-london-001''"
    by (simp_all add: site_def rpi_def)
  have rc: "returncode completed_ok = 0"
    by (simp add: completed_ok_def)
  show ?thesis
    using r(1) r(3) r'(3)
    by (simp add: a b unexpected_def no_log_directory_def state_read_only_def q n rc
        install_script_raspberrypi scp_file_def env_log_unwritable_runs ex_args_fields)
qed

subsection \<open>The error message of a failed execute step\<close>

lemma execute_error_long:
  "length (strip s) > 200 \<Longrightarrow>
     execute_error s = ''...'' @ drop (length (strip s) - 200) (strip s)"
  by (auto simp: execute_error_def Let_def)

lemma execute_error_empty:
  "strip s = [] \<Longrightarrow> execute_error s = ''Script exited with non-zero status''"
  by (simp add: execute_error_def Let_def)

lemma execute_error_short:
  "strip s \<noteq> [] \<Longrightarrow> length (strip s) \<le> 200 \<Longrightarrow> execute_error s = strip s"
  by (simp add: execute_error_def Let_def)

lemma execute_error_nonempty: "execute_error s \<noteq> []"
  by (simp add: execute_error_def Let_def)

lemma execute_error_bounded: "length (execute_error s) \<le> 203"
  by (simp add: execute_error_def Let_def)

lemma strip_long_stderr: "strip long_stderr = replicate 300 (CHR ''E'')"
  by (simp add: long_stderr_def strip_def py_isspace_def)

lemma execute_error_long_stderr:
  "execute_error long_stderr = ''...'' @ replicate 200 (CHR ''E'')"
  by (simp add: execute_error_long strip_long_stderr)

lemma tail_not_suffix_of_long_stderr: "\<not> suffix (replicate 200 (CHR ''E'')) long_stderr"
proof
  assume "suffix (replicate 200 (CHR ''E'')) long_stderr"
  then obtain zs where "long_stderr = zs @ replicate 200 (CHR ''E'')"
    by (auto simp: suffix_def)
  then have "last long_stderr = last (zs @ replicate 200 (CHR ''E''))"
    by simp
  also have "\<dots> = CHR ''E''"
    by simp
  finally show False
    by (simp add: long_stderr_def)
qed

text \<open>
  C4, as the code has it. For every attempt whose execute step completes with a non-zero
  exit code and whose log file is written, \<^verbatim>\<open>deploy_device\<close> returns a failure whose
  error message is never empty and at most 203 characters long. With the captured error
  stream stripped of leading and trailing whitespace: if more than 200 characters remain,
  the message is the marker \<^verbatim>\<open>...\<close> followed by the last 200 of them (so the message
  after its marker is a suffix of the stripped stream); if nothing remains, the message
  is \<^verbatim>\<open>Script exited with non-zero status\<close>; otherwise it is the stripped stream. This
  outcome is the one in \<^verbatim>\<open>results\<close> when the state file is written too. Whether the
  files are written or not, the outcome in \<^verbatim>\<open>results\<close> is a failure with an error
  message that is not empty.
\<close>

theorem execute_error_keeps_stripped_tail:
  assumes "fst (test_connectivity env ssh device)"
    and "install_script device = Inr script"
    and "arg_github args \<or>
           (path_exists env (path_join (arg_scripts_dir args) script) \<and>
            (\<exists>scp. scp_file env ssh device (path_join (arg_scripts_dir args) script)
                         remote_script = Inr scp
                   \<and> returncode scp = 0))"
    and "ssh_run env ssh device
           (if arg_github args then github_command device (build_env_string device tok) script
            else local_command device (build_env_string device tok)) 600 = Inr result"
    and "returncode result \<noteq> 0"
  shows "(log_write env = Written \<longrightarrow>
          (\<exists>r. fst (deploy_device env lg device ssh tok (arg_scripts_dir args) (arg_log_dir args) (arg_github args)) = Inr r
           \<and> (state_write env = Written \<longrightarrow> fst (attempt args ssh tok env w device) = r)
           \<and> \<not> success r
           \<and> error_message r \<noteq> []
           \<and> length (error_message r) \<le> 203
           \<and> (length (strip (stderr result)) > 200 \<longrightarrow>
                error_message r
                  = ''...'' @ drop (length (strip (stderr result)) - 200) (strip (stderr result))
                \<and> length (error_message r) = 203
                \<and> suffix (drop 3 (error_message r)) (strip (stderr result)))
           \<and> (strip (stderr result) = [] \<longrightarrow>
                error_message r = ''Script exited with non-zero status'')
           \<and> (strip (stderr result) \<noteq> [] \<and> length (strip (stderr result)) \<le> 200 \<longrightarrow>
                error_message r = strip (stderr result))))
       \<and> \<not> success (fst (attempt args ssh tok env w device))
       \<and> error_message (fst (attempt args ssh tok env w device)) \<noteq> []"
proof -
  let ?p = "path_join (arg_log_dir args) (device_name device @ ''.log'')"
  let ?r = "\<lparr>result_device_name = device_name device, success = False,
             duration_seconds = time_end env - time_start env,
             error_message = execute_error (stderr result),
             log_file = ?p\<rparr>"
  have dd: "deploy_device env lg' device ssh tok
              (arg_scripts_dir args) (arg_log_dir args) (arg_github args)
            = finish_deploy env lg' ?p device result" for lg'
    using assms(1-4) by (rule deploy_device_reaches_finish)
  have logged: "fst (deploy_device env lg' device ssh tok
                       (arg_scripts_dir args) (arg_log_dir args) (arg_github args)) = Inr ?r"
    if "log_write env = Written" for lg'
    using that assms(5) by (simp add: dd finish_deploy_Written)
  have long: "execute_error (stderr result)
                = ''...'' @ drop (length (strip (stderr result)) - 200) (strip (stderr result))
              \<and> length (execute_error (stderr result)) = 203
              \<and> suffix (drop 3 (execute_error (stderr result))) (strip (stderr result))"
    if "length (strip (stderr result)) > 200"
    using that by (simp add: execute_error_long suffix_drop)
  have first: "\<exists>r. fst (deploy_device env lg device ssh tok (arg_scripts_dir args) (arg_log_dir args) (arg_github args)) = Inr r
           \<and> (state_write env = Written \<longrightarrow> fst (attempt args ssh tok env w device) = r)
           \<and> \<not> success r
           \<and> error_message r \<noteq> []
           \<and> length (error_message r) \<le> 203
           \<and> (length (strip (stderr result)) > 200 \<longrightarrow>
                error_message r
                  = ''...'' @ drop (length (strip (stderr result)) - 200) (strip (stderr result))
                \<and> length (error_message r) = 203
                \<and> suffix (drop 3 (error_message r)) (strip (stderr result)))
           \<and> (strip (stderr result) = [] \<longrightarrow>
                error_message r = ''Script exited with non-zero status'')
           \<and> (strip (stderr result) \<noteq> [] \<and> length (strip (stderr result)) \<le> 200 \<longrightarrow>
                error_message r = strip (stderr result))"
    if w: "log_write env = Written"
  proof (intro exI [of _ ?r] conjI impI)
    have msg: "error_message ?r = execute_error (stderr result)" by simp
    show "fst (deploy_device env lg device ssh tok (arg_scripts_dir args) (arg_log_dir args) (arg_github args)) = Inr ?r"
      using w by (rule logged)
    show "fst (attempt args ssh tok env w device) = ?r" if "state_write env = Written"
      using logged [OF w, of "logs w"] that by (rule attempt_recorded)
    show "\<not> success ?r" by simp
    show "error_message ?r \<noteq> []" by (simp add: execute_error_nonempty)
    show "length (error_message ?r) \<le> 203" by (simp add: execute_error_bounded)
    show "error_message ?r
            = ''...'' @ drop (length (strip (stderr result)) - 200) (strip (stderr result))"
      if "200 < length (strip (stderr result))"
      unfolding msg using long [OF that] by (elim conjE)
    show "length (error_message ?r) = 203" if "200 < length (strip (stderr result))"
      unfolding msg using long [OF that] by (elim conjE)
    show "suffix (drop 3 (error_message ?r)) (strip (stderr result))"
      if "200 < length (strip (stderr result))"
      unfolding msg using long [OF that] by (elim conjE)
    show "error_message ?r = ''Script exited with non-zero status''"
      if "strip (stderr result) = []"
      using that by (simp add: execute_error_empty)
    show "error_message ?r = strip (stderr result)"
      if "strip (stderr result) \<noteq> [] \<and> length (strip (stderr result)) \<le> 200"
      using that by (simp add: execute_error_short)
  qed
  have recorded_failure:
    "\<not> success (fst (attempt args ssh tok env w device))
     \<and> error_message (fst (attempt args ssh tok env w device)) \<noteq> []"
  proof (cases "log_write env = Written")
    case True
    note l = logged [OF True, of "logs w"]
    show ?thesis
    proof (cases "state_write env = Written")
      case True
      with l have "fst (attempt args ssh tok env w device) = ?r"
        by (rule attempt_recorded)
      then show ?thesis by (simp add: execute_error_nonempty)
    next
      case False
      with l obtain exn where "fst (attempt args ssh tok env w device) = unexpected device exn"
        using attempt_record_raised by blast
      then show ?thesis by (simp add: unexpected_failed unexpected_message)
    qed
  next
    case False
    then obtain exn where "fst (finish_deploy env (logs w) ?p device result) = Inl exn"
      using finish_deploy_raises by blast
    then have "fst (deploy_device env (logs w) device ssh tok
                 (arg_scripts_dir args) (arg_log_dir args) (arg_github args)) = Inl exn"
      by (simp add: dd)
    then have "fst (attempt args ssh tok env w device) = unexpected device exn"
      by (rule attempt_deploy_raised)
    then show ?thesis by (simp add: unexpected_failed unexpected_message)
  qed
  show ?thesis
    using first recorded_failure by fast
qed

theorem execute_error_keeps_stripped_tail_witness:
  "length (strip (stderr noisy_failure)) > 200
   \<and> log_write env_install_noisy = Written \<and> state_write env_install_noisy = Written
   \<and> fst (attempt ex_args ssh0 ''t0k'' env_install_noisy ex_world rpi)
       = \<lparr>result_device_name = ''rpi-london-001'', success = False, duration_seconds = 42,
          error_message = ''...'' @ replicate 200 (CHR ''E''),
          log_file = ''logs/rpi-london-001.log''\<rparr>"
proof -
  note r = reach_rpi [OF env_install_noisy_runs(1,2)]
  have e: "returncode noisy_failure \<noteq> 0"
    by (simp add: noisy_failure_def)
  have s: "strip (stderr noisy_failure) = replicate 300 (CHR ''E'')"
    by (simp add: noisy_failure_def strip_long_stderr)
  have "\<exists>r. fst (deploy_device env_install_noisy (logs ex_world) rpi ssh0 ''t0k''
                    (arg_scripts_dir ex_args) (arg_log_dir ex_args) (arg_github ex_args)) = Inr r
           \<and> fst (attempt ex_args ssh0 ''t0k'' env_install_noisy ex_world rpi) = r
           \<and> error_message r = ''...'' @ replicate 200 (CHR ''E'')"
    using execute_error_keeps_stripped_tail
            [OF r(1) install_script_raspberrypi(1) r(2) r(3) e,
             where w = ex_world and lg = "logs ex_world", THEN conjunct1]
    by (simp add: s env_install_noisy_runs)
  then obtain x where
    x: "fst (deploy_device env_install_noisy (logs ex_world) rpi ssh0 ''t0k''
          (arg_scripts_dir ex_args) (arg_log_dir ex_args) (arg_github ex_args)) = Inr x"
    and a: "fst (attempt ex_args ssh0 ''t0k'' env_install_noisy ex_world rpi) = x"
    and m: "error_message x = ''...'' @ replicate 200 (CHR ''E'')"
    by blast
  have "deploy_device env_install_noisy (logs ex_world) rpi ssh0 ''t0k''
          (arg_scripts_dir ex_args) (arg_log_dir ex_args) (arg_github ex_args)
        = finish_deploy env_install_noisy (logs ex_world)
            (path_join (arg_log_dir ex_args) (device_name rpi @ ''.log'')) rpi noisy_failure"
    using r(1) install_script_raspberrypi(1) r(2) r(3)
    by (rule deploy_device_reaches_finish)
  with x have "x = \<lparr>result_device_name = ''rpi-london-001'', success = False,
                    duration_seconds = 42, error_message = error_message x,
                    log_file = ''logs/rpi-london-001.log''\<rparr>"
    by (simp add: finish_deploy_Written env_install_noisy_runs e ex_args_fields
        path_join_def rpi_def m execute_error_long_stderr noisy_failure_def)
  with a m show ?thesis
    by (simp add: s env_install_noisy_runs)
qed

text \<open>
  The claim as the specification states it, about the error stream as captured, fails on
  an error stream that ends with a newline: the stream is longer than the bound, and the
  200 characters kept are not its tail. And when the log file of the failed attempt
  cannot be opened, the message recorded is not cut from the error stream at all.
\<close>

theorem captured_stream_tail_counterexample:
  "length (stderr noisy_failure) > 200
   \<and> fst (deploy_device env_install_noisy Map.empty rpi ssh0 ''t0k'' ''scripts'' ''logs'' False)
       = Inr \<lparr>result_device_name = ''rpi-london-001'', success = False, duration_seconds = 42,
              error_message = ''...'' @ replicate 200 (CHR ''E''),
              log_file = ''logs/rpi-london-001.log''\<rparr>
   \<and> \<not> suffix (replicate 200 (CHR ''E'')) (stderr noisy_failure)
   \<and> ssh_run env_noisy_log_unwritable ssh0 site
        (local_command site (build_env_string site ''t0k'')) 600 = Inr noisy_failure
   \<and> fst (attempt ex_args ssh0 ''t0k'' env_noisy_log_unwritable ex_world site)
       = \<lparr>result_device_name = ''site/a'', success = False, duration_seconds = 0,
          error_message = ''Unexpected error: [Errno 2] No such file or directory: ''
                          @ [SQ] @ ''logs/site/a.log'' @ [SQ],
          log_file = []\<rparr>"
proof -
  note r = reach_rpi [OF env_install_noisy_runs(1,2)]
  have "deploy_device env_install_noisy Map.empty rpi ssh0 ''t0k''
          (arg_scripts_dir ex_args) (arg_log_dir ex_args) (arg_github ex_args)
        = finish_deploy env_install_noisy Map.empty
            (path_join (arg_log_dir ex_args) (device_name rpi @ ''.log'')) rpi noisy_failure"
    using r(1) install_script_raspberrypi(1) r(2) r(3)
    by (rule deploy_device_reaches_finish)
  then have one:
    "fst (deploy_device env_install_noisy Map.empty rpi ssh0 ''t0k'' ''scripts'' ''logs'' False)
       = Inr \<lparr>result_device_name = ''rpi-london-001'', success = False, duration_seconds = 42,
              error_message = ''...'' @ replicate 200 (CHR ''E''),
              log_file = ''logs/rpi-london-001.log''\<rparr>"
    by (simp add: finish_deploy_Written env_install_noisy_runs ex_args_fields
        path_join_def rpi_def execute_error_long_stderr noisy_failure_def)
  note r' = reach_rpi [OF env_noisy_log_unwritable_runs(1,2)]
  have dd: "deploy_device env_noisy_log_unwritable (logs ex_world) site ssh0 ''t0k''
              (arg_scripts_dir ex_args) (arg_log_dir ex_args) (arg_github ex_args)
            = finish_deploy env_noisy_log_unwritable (logs ex_world)
                (path_join (arg_log_dir ex_args) (device_name site @ ''.log''))
                site noisy_failure"
    using r'(1) install_script_raspberrypi(2) r'(2) r'(3)
    by (rule deploy_device_reaches_finish)
  have "fst (deploy_device env_noisy_log_unwritable (logs ex_world) site ssh0 ''t0k''
              (arg_scripts_dir ex_args) (arg_log_dir ex_args) (arg_github ex_args))
          = Inl no_log_directory"
    by (simp add: dd finish_deploy_def write_log_def env_noisy_log_unwritable_runs Let_def)
  then have two: "fst (attempt ex_args ssh0 ''t0k'' env_noisy_log_unwritable ex_world site)
                  = unexpected site no_log_directory"
    by (rule attempt_deploy_raised)
  have q: "py_repr ''logs/site/a.log'' = [SQ] @ ''logs/site/a.log'' @ [SQ]"
    by (simp add: py_repr_def repr_char_def py_printable_def Let_def)
  have three: "\<not> suffix (replicate 200 (CHR ''E'')) (stderr noisy_failure)"
    using tail_not_suffix_of_long_stderr by (simp add: noisy_failure_def)
  have four: "length (stderr noisy_failure) > 200"
    by (simp add: noisy_failure_def long_stderr_def)
  have n: "device_name site = ''site/a''"
    by (simp add: site_def)
  show ?thesis
    using r'(3) one three four
    by (simp add: two unexpected_def no_log_directory_def q n ex_args_fields)
qed

subsection \<open>One attempt\<close>

lemma name_finish_deploy:
  "fst (finish_deploy env lg p device result) = Inr r
     \<Longrightarrow> result_device_name r = device_name device"
  by (cases "log_write env")
     (auto simp: finish_deploy_def write_log_def Let_def split: if_splits)

lemma name_fail_early:
  "fst (fail_early env lg p device code out msg) = Inr r
     \<Longrightarrow> result_device_name r = device_name device"
  by (cases "log_write env") (auto simp: fail_early_def write_log_def)

text \<open>An outcome that \<^verbatim>\<open>deploy_device\<close> returns carries the name of its device.\<close>

lemma deploy_device_name:
  "fst (deploy_device env lg device ssh tok sd ld gh) = Inr r
     \<Longrightarrow> result_device_name r = device_name device"
  by (auto simp: deploy_device_def deploy_github_def deploy_local_def Let_def
        split: if_splits sum.splits dest: name_finish_deploy name_fail_early)

text \<open>Whether and what \<^verbatim>\<open>deploy_device\<close> returns does not depend on the logs it finds.\<close>

lemma fst_finish_deploy_logs:
  "fst (finish_deploy env lg p device result) = fst (finish_deploy env lg' p device result)"
  by (cases "log_write env") (simp_all add: finish_deploy_def write_log_def Let_def)

lemma fst_fail_early_logs:
  "fst (fail_early env lg p device code out msg) = fst (fail_early env lg' p device code out msg)"
  by (cases "log_write env") (simp_all add: fail_early_def write_log_def)

lemma deploy_device_logs:
  "fst (deploy_device env lg device ssh tok sd ld gh)
     = fst (deploy_device env lg' device ssh tok sd ld gh)"
  using fst_finish_deploy_logs [of env lg _ device _ lg']
    fst_fail_early_logs [of env lg _ device _ _ _ lg']
  by (simp add: deploy_device_def deploy_github_def deploy_local_def Let_def
        split: sum.splits)

text \<open>Whether the record call raises does not depend on the state it finds.\<close>

lemma fst_save_state:
  "fst (save_state wr st)
     = (case wr of Written \<Rightarrow> None | OpenFails x \<Rightarrow> Some x | WriteFails x \<Rightarrow> Some x)"
  by (cases wr) (simp_all add: save_state_def)

lemma fst_mark_success: "fst (mark_success now wr st n) = fst (save_state wr st')"
  by (simp add: mark_success_def fst_save_state)

lemma fst_mark_failed: "fst (mark_failed now wr st n err) = fst (save_state wr st')"
  by (simp add: mark_failed_def fst_save_state)

text \<open>What the worker returns or raises, by how \<^verbatim>\<open>deploy_device\<close> ended.\<close>

lemma fst_deploy_and_record:
  "fst (deploy_and_record env w device ssh tok sd ld gh)
     = (case fst (deploy_device env (logs w) device ssh tok sd ld gh) of
          Inl exn \<Rightarrow> Inl exn
        | Inr r \<Rightarrow> (case state_write env of
                      Written \<Rightarrow> Inr r
                    | OpenFails x \<Rightarrow> Inl x
                    | WriteFails x \<Rightarrow> Inl x))"
proof (cases "deploy_device env (logs w) device ssh tok sd ld gh")
  case (Pair x lg')
  show ?thesis
  proof (cases x)
    case (Inl exn)
    with Pair show ?thesis
      by (simp add: deploy_and_record_def)
  next
    case (Inr r)
    with Pair show ?thesis
      by (cases "state_write env"; cases "success r")
         (simp_all add: deploy_and_record_def mark_success_def mark_failed_def save_state_def)
  qed
qed

lemma worker_any_world:
  "fst (deploy_and_record env w device ssh tok (arg_scripts_dir args) (arg_log_dir args)
          (arg_github args)) = worker args ssh tok env device"
  using deploy_device_logs [of env "logs w" device ssh tok _ _ _ "logs blank_world"]
  by (simp add: worker_def fst_deploy_and_record)

lemma worker_deployed:
  "worker args ssh tok env device
     = (case fst (deploy_device env lg device ssh tok
                    (arg_scripts_dir args) (arg_log_dir args) (arg_github args)) of
          Inl exn \<Rightarrow> Inl exn
        | Inr r \<Rightarrow> (case state_write env of
                      Written \<Rightarrow> Inr r
                    | OpenFails x \<Rightarrow> Inl x
                    | WriteFails x \<Rightarrow> Inl x))"
  using deploy_device_logs [of env lg device ssh tok _ _ _ "logs blank_world"]
  by (simp add: worker_def fst_deploy_and_record)

lemma worker_returned:
  assumes "worker args ssh tok env device = Inr r"
  shows "fst (deploy_device env lg device ssh tok
                (arg_scripts_dir args) (arg_log_dir args) (arg_github args)) = Inr r"
    and "state_write env = Written"
  using assms worker_deployed [of args ssh tok env device lg]
  by (auto split: sum.splits file_write.splits)

lemma worker_name:
  "worker args ssh tok env device = Inr r \<Longrightarrow> result_device_name r = device_name device"
  using worker_returned(1) [of args ssh tok env device r Map.empty]
  by (auto dest: deploy_device_name)

lemma recorded_name: "result_device_name (recorded args ssh tok env device) = device_name device"
  by (auto simp: recorded_def unexpected_def worker_name split: sum.splits)

lemma fst_attempt: "fst (attempt args ssh tok env w device) = recorded args ssh tok env device"
  using worker_any_world [of env w device ssh tok args]
  by (auto simp: attempt_def recorded_def split: prod.splits sum.splits)

text \<open>
  A worker that raises inside \<^verbatim>\<open>deploy_device\<close> has not touched the state manager.
\<close>

lemma attempt_raise_world:
  assumes "fst (deploy_device env lg device ssh tok
                  (arg_scripts_dir args) (arg_log_dir args) (arg_github args)) = Inl exn"
  shows "sm (snd (attempt args ssh tok env w device)) = sm w"
proof -
  have "fst (deploy_device env (logs w) device ssh tok
               (arg_scripts_dir args) (arg_log_dir args) (arg_github args)) = Inl exn"
    using assms deploy_device_logs [of env lg device ssh tok _ _ _ "logs w"] by simp
  then obtain lg' where "deploy_device env (logs w) device ssh tok
      (arg_scripts_dir args) (arg_log_dir args) (arg_github args) = (Inl exn, lg')"
    by (metis fst_conv surj_pair)
  then show ?thesis
    by (simp add: attempt_def deploy_and_record_def)
qed

text \<open>
  A worker whose call of \<^verbatim>\<open>deploy_device\<close> returns goes on to record its result in the
  state manager, whether the record call returns or raises.
\<close>

lemma attempt_return_world:
  assumes "fst (deploy_device env lg device ssh tok
                  (arg_scripts_dir args) (arg_log_dir args) (arg_github args)) = Inr r"
  shows "sm (snd (attempt args ssh tok env w device))
           = snd (if success r
                  then mark_success (now_state env) (state_write env) (sm w) (device_name device)
                  else mark_failed (now_state env) (state_write env) (sm w) (device_name device)
                         (error_message r))"
proof -
  have "fst (deploy_device env (logs w) device ssh tok
               (arg_scripts_dir args) (arg_log_dir args) (arg_github args)) = Inr r"
    using assms deploy_device_logs [of env lg device ssh tok _ _ _ "logs w"] by simp
  then obtain lg' where "deploy_device env (logs w) device ssh tok
      (arg_scripts_dir args) (arg_log_dir args) (arg_github args) = (Inr r, lg')"
    by (metis fst_conv surj_pair)
  then show ?thesis
    by (cases "state_write env"; cases "success r")
       (simp_all add: attempt_def deploy_and_record_def mark_success_def mark_failed_def
        save_state_def)
qed

subsection \<open>The loop\<close>

lemma run_jobs_results:
  "fst (run_jobs args ssh tok envs jobs rs w)
     = rs @ map (\<lambda>(i, d). recorded args ssh tok (envs i) d) jobs"
proof (induction jobs arbitrary: rs w)
  case Nil
  then show ?case by simp
next
  case (Cons job jobs)
  obtain i d where job: "job = (i, d)" by (cases job)
  obtain r w' where a: "attempt args ssh tok (envs i) w d = (r, w')"
    by (cases "attempt args ssh tok (envs i) w d")
  then have "r = recorded args ssh tok (envs i) d"
    using fst_attempt [of args ssh tok "envs i" w d] by simp
  with a show ?case
    by (simp add: job Cons.IH)
qed

lemma mset_as_completed: "mset (as_completed choices pending) = mset pending"
proof (induction choices pending rule: as_completed.induct)
  case (1 choices)
  then show ?case by simp
next
  case (2 choices p ps)
  define k where "k = (case choices of [] \<Rightarrow> 0 | c # _ \<Rightarrow> c mod length (p # ps))"
  have k: "k < length (p # ps)"
    by (auto simp: k_def split: list.splits)
  have "mset (as_completed (tl choices) (take k (p # ps) @ drop (Suc k) (p # ps)))
      = mset (take k (p # ps) @ drop (Suc k) (p # ps))"
    using "2.IH" [of "p # ps" k] by (simp add: k_def)
  moreover have "mset (p # ps)
      = mset (take k (p # ps) @ (p # ps) ! k # drop (Suc k) (p # ps))"
    using id_take_nth_drop [OF k] by simp
  ultimately show ?case
    unfolding as_completed.simps Let_def k_def [symmetric] by simp
qed

lemma indexed_snd: "map snd (indexed xs) = xs"
  by (simp add: indexed_def)

lemma set_indexed: "set (indexed xs) = {(i, xs ! i) | i. i < length xs}"
proof -
  have "\<exists>j. i = [0..<length xs] ! j \<and> xs ! i = xs ! j \<and> j < length xs"
    if "i < length xs" for i
    using that by (intro exI [of _ i]) simp
  then show ?thesis
    by (auto simp: indexed_def set_zip)
qed

text \<open>
  C1. Whatever the number of workers (in particular each of 1..5), the list of results
  that step 12 builds holds exactly one outcome per selected device: it is the list of
  the recorded outcomes of the jobs (position, device) in some order that takes every job
  exactly once, the order of the selection itself in sequential mode. A worker that raises
  an exception is recorded as a failed outcome for its device, with the message
  \<^verbatim>\<open>Unexpected error: \<close> followed by the exception's text, and the other devices are
  deployed all the same.
\<close>

theorem one_outcome_per_host:
  "(\<exists>jobs. mset jobs = mset (indexed devices)
        \<and> (arg_parallel args \<le> 1 \<longrightarrow> jobs = indexed devices)
        \<and> fst (deploy_all args ssh tok e devices w)
            = map (\<lambda>(i, d). recorded args ssh tok (worker_env e i) d) jobs)
   \<and> length (fst (deploy_all args ssh tok e devices w)) = length devices
   \<and> mset (map result_device_name (fst (deploy_all args ssh tok e devices w)))
       = mset (map device_name devices)
   \<and> (\<forall>env d exn. worker args ssh tok env d = Inl exn \<longrightarrow>
         recorded args ssh tok env d
           = \<lparr>result_device_name = device_name d, success = False, duration_seconds = 0,
              error_message = ''Unexpected error: '' @ exc_str exn, log_file = []\<rparr>)"
proof -
  define jobs where "jobs = (if arg_parallel args > 1
                             then as_completed (completion e) (indexed devices)
                             else indexed devices)"
  have perm: "mset jobs = mset (indexed devices)"
    by (simp add: jobs_def mset_as_completed)
  have seq: "arg_parallel args \<le> 1 \<longrightarrow> jobs = indexed devices"
    by (simp add: jobs_def)
  have res: "fst (deploy_all args ssh tok e devices w)
               = map (\<lambda>(i, d). recorded args ssh tok (worker_env e i) d) jobs"
    by (simp add: deploy_all_def jobs_def run_jobs_results)
  have "length jobs = length devices"
    using perm mset_eq_length [of jobs "indexed devices"] by (simp add: indexed_def)
  then have len: "length (fst (deploy_all args ssh tok e devices w)) = length devices"
    by (simp add: res)
  have "map result_device_name (fst (deploy_all args ssh tok e devices w))
          = map (device_name \<circ> snd) jobs"
    by (auto simp: res recorded_name)
  then have "mset (map result_device_name (fst (deploy_all args ssh tok e devices w)))
          = image_mset (device_name \<circ> snd) (mset jobs)"
    by simp
  also have "\<dots> = image_mset device_name (mset (map snd (indexed devices)))"
    by (simp add: perm multiset.map_comp)
  finally have names: "mset (map result_device_name (fst (deploy_all args ssh tok e devices w)))
          = mset (map device_name devices)"
    by (simp add: indexed_snd)
  have exc: "\<forall>env d exn. worker args ssh tok env d = Inl exn \<longrightarrow>
               recorded args ssh tok env d
                 = \<lparr>result_device_name = device_name d, success = False, duration_seconds = 0,
                    error_message = ''Unexpected error: '' @ exc_str exn, log_file = []\<rparr>"
    by (simp add: recorded_def unexpected_def)
  from perm seq res len names exc show ?thesis
    by blast
qed

lemma ex_worker_0:
  "worker ex_args ssh0 ''t0k'' env_install_fails rpi
     = Inr \<lparr>result_device_name = ''rpi-london-001'', success = False, duration_seconds = 42,
            error_message = ''E: Unable to locate package zabbix-agent2'',
            log_file = ''logs/rpi-london-001.log''\<rparr>"
  by (simp add: worker_def deploy_and_record_def deploy_device_def deploy_local_def
      test_connectivity_def scp_file_def ssh_run_def install_script_def INSTALL_SCRIPTS_def
      finish_deploy_def write_log_def mark_failed_def save_state_def
      execute_error_def strip_def py_isspace_def path_join_def
      Let_def env_install_fails_def env_ok_def completed_ok_def apt_failure_def ex_args_def
      rpi_def blank_world_def)

lemma ex_worker_1:
  "worker ex_args ssh0 ''t0k'' env_install_hangs mac
     = Inl (TimeoutExpired ''timed out after 600 seconds'')"
  by (simp add: worker_def deploy_and_record_def deploy_device_def deploy_local_def
      test_connectivity_def scp_file_def ssh_run_def install_script_def INSTALL_SCRIPTS_def
      path_join_def Let_def env_install_hangs_def env_ok_def completed_ok_def ex_args_def
      mac_def blank_world_def)

lemma ex_worker_2:
  "worker ex_args ssh0 ''t0k'' env_ok rock
     = Inr \<lparr>result_device_name = ''rock-berlin-003'', success = True, duration_seconds = 42,
            error_message = [], log_file = ''logs/rock-berlin-003.log''\<rparr>"
  by (simp add: worker_def deploy_and_record_def deploy_device_def deploy_local_def
      test_connectivity_def scp_file_def ssh_run_def install_script_def INSTALL_SCRIPTS_def
      finish_deploy_def write_log_def mark_success_def save_state_def path_join_def
      Let_def env_ok_def completed_ok_def ex_args_def rock_def blank_world_def)

lemma ex_jobs:
  "as_completed (completion ex_env) (indexed [rpi, mac, rock]) = [(2, rock), (0, rpi), (1, mac)]"
  by (simp add: ex_env_def indexed_def upt_rec Let_def)

lemma ex_results:
  "fst (deploy_all ex_args ssh0 ''t0k'' ex_env [rpi, mac, rock] ex_world)
     = [\<lparr>result_device_name = ''rock-berlin-003'', success = True, duration_seconds = 42,
         error_message = [], log_file = ''logs/rock-berlin-003.log''\<rparr>,
        \<lparr>result_device_name = ''rpi-london-001'', success = False, duration_seconds = 42,
         error_message = ''E: Unable to locate package zabbix-agent2'',
         log_file = ''logs/rpi-london-001.log''\<rparr>,
        \<lparr>result_device_name = ''mac-paris-002'', success = False, duration_seconds = 0,
         error_message = ''Unexpected error: timed out after 600 seconds'', log_file = []\<rparr>]"
proof -
  have par: "arg_parallel ex_args > 1"
    by (simp add: ex_args_def)
  have envs: "worker_env ex_env 0 = env_install_fails" "worker_env ex_env (Suc 0) = env_install_hangs"
    "worker_env ex_env 2 = env_ok"
    by (simp_all add: ex_env_def)
  have name: "device_name mac = ''mac-paris-002''"
    by (simp add: mac_def)
  have "deploy_all ex_args ssh0 ''t0k'' ex_env [rpi, mac, rock] ex_world
      = run_jobs ex_args ssh0 ''t0k'' (worker_env ex_env)
          (as_completed (completion ex_env) (indexed [rpi, mac, rock])) [] ex_world"
    using par by (simp only: deploy_all_def if_True)
  then have "fst (deploy_all ex_args ssh0 ''t0k'' ex_env [rpi, mac, rock] ex_world)
      = map (\<lambda>(i, d). recorded ex_args ssh0 ''t0k'' (worker_env ex_env i) d)
          [(2, rock), (0, rpi), (1, mac)]"
    by (simp only: run_jobs_results ex_jobs append_Nil)
  then show ?thesis
    by (simp add: envs name recorded_def ex_worker_0 ex_worker_1 ex_worker_2 unexpected_def)
qed

theorem one_outcome_per_host_witness:
  "length (fst (deploy_all ex_args ssh0 ''t0k'' ex_env [rpi, mac, rock] ex_world)) = 3
   \<and> mset (map result_device_name
             (fst (deploy_all ex_args ssh0 ''t0k'' ex_env [rpi, mac, rock] ex_world)))
       = mset [''rpi-london-001'', ''mac-paris-002'', ''rock-berlin-003'']
   \<and> worker ex_args ssh0 ''t0k'' env_install_hangs mac
       = Inl (TimeoutExpired ''timed out after 600 seconds'')
   \<and> recorded ex_args ssh0 ''t0k'' env_install_hangs mac
       = \<lparr>result_device_name = ''mac-paris-002'', success = False, duration_seconds = 0,
          error_message = ''Unexpected error: timed out after 600 seconds'', log_file = []\<rparr>
   \<and> recorded ex_args ssh0 ''t0k'' env_install_hangs mac
       \<in> set (fst (deploy_all ex_args ssh0 ''t0k'' ex_env [rpi, mac, rock] ex_world))"
  using one_outcome_per_host [of "[rpi, mac, rock]" ex_args ssh0 "''t0k''" ex_env ex_world]
    ex_worker_1 ex_results
  by (simp add: recorded_def unexpected_def mac_def)

subsection \<open>The state manager across a run\<close>

lemma attempt_state_other:
  assumes "device_name device \<noteq> n \<or>
           (\<exists>exn. fst (deploy_device env Map.empty device ssh tok
                         (arg_scripts_dir args) (arg_log_dir args) (arg_github args)) = Inl exn)"
  shows "state (sm (snd (attempt args ssh tok env w device))) n = state (sm w) n"
proof (cases "fst (deploy_device env Map.empty device ssh tok
                     (arg_scripts_dir args) (arg_log_dir args) (arg_github args))")
  case (Inl exn)
  then show ?thesis
    by (simp add: attempt_raise_world)
next
  case (Inr r)
  with assms have "n \<noteq> device_name device"
    by auto
  then show ?thesis
    by (simp add: attempt_return_world [OF Inr] state_mark_success state_mark_failed)
qed

text \<open>
  An entry of the state dictionary is as it was before the loop when every worker started
  for a device of that name has raised inside \<^verbatim>\<open>deploy_device\<close> (in particular when
  there was none).
\<close>

lemma run_jobs_state_untouched:
  assumes "\<forall>(i, d)\<in>set jobs. device_name d = n \<longrightarrow>
             (\<exists>exn. fst (deploy_device (envs i) Map.empty d ssh tok
                           (arg_scripts_dir args) (arg_log_dir args) (arg_github args)) = Inl exn)"
  shows "state (sm (snd (run_jobs args ssh tok envs jobs rs w))) n = state (sm w) n"
  using assms
proof (induction jobs arbitrary: rs w)
  case Nil
  then show ?case by simp
next
  case (Cons job jobs)
  obtain i d where job: "job = (i, d)" by (cases job)
  obtain r w' where a: "attempt args ssh tok (envs i) w d = (r, w')"
    by (cases "attempt args ssh tok (envs i) w d")
  have "device_name d \<noteq> n \<or>
        (\<exists>exn. fst (deploy_device (envs i) Map.empty d ssh tok
                      (arg_scripts_dir args) (arg_log_dir args) (arg_github args)) = Inl exn)"
    using Cons.prems by (auto simp: job)
  then have "state (sm (snd (attempt args ssh tok (envs i) w d))) n = state (sm w) n"
    by (rule attempt_state_other)
  then have "state (sm w') n = state (sm w) n"
    by (simp add: a)
  moreover have "state (sm (snd (run_jobs args ssh tok envs jobs (rs @ [r]) w'))) n
      = state (sm w') n"
    using Cons.prems by (intro Cons.IH) auto
  ultimately show ?case
    by (simp add: job a)
qed






lemma deploy_all_jobs:
  "deploy_all args ssh tok e devices w
     = run_jobs args ssh tok (worker_env e) (jobs_of args e devices) [] w"
  by (simp add: deploy_all_def jobs_of_def)

lemma set_jobs_of: "set (jobs_of args e devices) = {(i, devices ! i) | i. i < length devices}"
proof -
  have "set (jobs_of args e devices) = set (indexed devices)"
    using mset_as_completed [of "completion e" "indexed devices"]
    by (auto simp: jobs_of_def dest: mset_eq_setD)
  then show ?thesis
    by (simp add: set_indexed)
qed

lemma only_job_of_name:
  assumes "distinct (map device_name devices)" and "i < length devices"
    and "(j, d) \<in> set (jobs_of args e devices)" and "device_name d = device_name (devices ! i)"
  shows "j = i \<and> d = devices ! i"
proof -
  from assms(3) have j: "j < length devices" and d: "d = devices ! j"
    by (auto simp: set_jobs_of)
  have "map device_name devices ! j = map device_name devices ! i"
    using assms(2,4) j d by simp
  moreover have "j < length (map device_name devices)" "i < length (map device_name devices)"
    using assms(2) j by simp_all
  ultimately have "j = i"
    using assms(1) nth_eq_iff_index_eq by blast
  with d show ?thesis by simp
qed

lemma results_of_jobs:
  "set (fst (deploy_all args ssh tok e devices w))
     = (\<lambda>(i, d). recorded args ssh tok (worker_env e i) d) ` set (jobs_of args e devices)"
  by (simp add: deploy_all_jobs run_jobs_results)




lemma names_jobs_of:
  "mset (map (device_name \<circ> snd) (jobs_of args e devices)) = mset (map device_name devices)"
proof -
  have "mset (jobs_of args e devices) = mset (indexed devices)"
    by (simp add: jobs_of_def mset_as_completed)
  then have "mset (map (device_name \<circ> snd) (jobs_of args e devices))
      = mset (map (device_name \<circ> snd) (indexed devices))"
    by (metis mset_map)
  also have "\<dots> = mset (map device_name (map snd (indexed devices)))"
    by simp
  finally show ?thesis
    by (simp add: indexed_snd)
qed

lemma distinct_jobs_of:
  "distinct (map device_name devices)
     \<Longrightarrow> distinct (map (device_name \<circ> snd) (jobs_of args e devices))"
  using names_jobs_of [of args e devices] mset_eq_imp_distinct_iff by blast

text \<open>
  With one job per device name, the status of a device after the loop is the result its
  worker returned.
\<close>

lemma run_jobs_status_recorded:
  assumes "distinct (map (device_name \<circ> snd) jobs)"
    and "(i, d) \<in> set jobs"
    and "worker args ssh tok (envs i) d = Inr r"
  shows "get_status (sm (snd (run_jobs args ssh tok envs jobs rs w))) (device_name d)
           = Some (if success r then ''success'' else ''failed'')"
  using assms
proof (induction jobs arbitrary: rs w)
  case Nil
  then show ?case by simp
next
  case (Cons job jobs)
  obtain j c where job: "job = (j, c)" by (cases job)
  obtain r' w' where a: "attempt args ssh tok (envs j) w c = (r', w')"
    by (cases "attempt args ssh tok (envs j) w c")
  show ?case
  proof (cases "(i, d) \<in> set jobs")
    case True
    then show ?thesis
      using Cons.IH [of "rs @ [r']" w'] Cons.prems by (simp add: job a)
  next
    case False
    with Cons.prems have same: "j = i" "c = d"
      by (auto simp: job)
    have "sm w' = snd (if success r
                       then mark_success (now_state (envs i)) (state_write (envs i)) (sm w)
                              (device_name d)
                       else mark_failed (now_state (envs i)) (state_write (envs i)) (sm w)
                              (device_name d) (error_message r))"
      using attempt_return_world [OF worker_returned(1) [OF Cons.prems(3)], of w] a
      by (simp add: same)
    then have now: "get_status (sm w') (device_name d)
                      = Some (if success r then ''success'' else ''failed'')"
      by (simp add: get_status_mark_success get_status_mark_failed)
    have "\<forall>(k, b)\<in>set jobs. device_name b = device_name d \<longrightarrow>
            (\<exists>exn. fst (deploy_device (envs k) Map.empty b ssh tok
                          (arg_scripts_dir args) (arg_log_dir args) (arg_github args)) = Inl exn)"
      using Cons.prems(1) by (force simp: job same)
    then have "state (sm (snd (run_jobs args ssh tok envs jobs (rs @ [r']) w'))) (device_name d)
        = state (sm w') (device_name d)"
      by (rule run_jobs_state_untouched)
    then have "get_status (sm (snd (run_jobs args ssh tok envs jobs (rs @ [r']) w')))
                 (device_name d) = get_status (sm w') (device_name d)"
      by (simp add: get_status_def)
    with now show ?thesis
      by (simp add: job a)
  qed
qed

text \<open>
  After a run in which every worker returned, a device is not recorded as deployed
  exactly when the run's results hold a failure for it, or the run did not attempt it and
  it was not recorded as deployed before.
\<close>

lemma status_after_run:
  assumes names: "distinct (map device_name attempted)"
    and returned: "\<forall>i<length attempted. \<exists>r. worker args ssh tok (worker_env e i) (attempted ! i) = Inr r"
  shows "get_status (sm (snd (deploy_all args ssh tok e attempted w))) n \<noteq> Some ''success''
           \<longleftrightarrow> (\<exists>r\<in>set (fst (deploy_all args ssh tok e attempted w)).
                    result_device_name r = n \<and> \<not> success r)
               \<or> (n \<notin> set (map device_name attempted) \<and> get_status (sm w) n \<noteq> Some ''success'')"
proof (cases "n \<in> set (map device_name attempted)")
  case False
  have "\<forall>(j, d)\<in>set (jobs_of args e attempted). device_name d = n \<longrightarrow>
          (\<exists>exn. fst (deploy_device (worker_env e j) Map.empty d ssh tok
                        (arg_scripts_dir args) (arg_log_dir args) (arg_github args)) = Inl exn)"
    using False by (auto simp: set_jobs_of)
  then have "state (sm (snd (deploy_all args ssh tok e attempted w))) n = state (sm w) n"
    unfolding deploy_all_jobs by (rule run_jobs_state_untouched)
  then have same: "get_status (sm (snd (deploy_all args ssh tok e attempted w))) n = get_status (sm w) n"
    by (simp add: get_status_def)
  have "result_device_name r \<noteq> n" if "r \<in> set (fst (deploy_all args ssh tok e attempted w))" for r
  proof -
    from that obtain j d where "(j, d) \<in> set (jobs_of args e attempted)"
      and "r = recorded args ssh tok (worker_env e j) d"
      unfolding results_of_jobs by auto
    then have "result_device_name r = device_name d" "d \<in> set attempted"
      by (auto simp: recorded_name set_jobs_of)
    then show ?thesis
      using False by auto
  qed
  then have "\<not> (\<exists>r\<in>set (fst (deploy_all args ssh tok e attempted w)).
               result_device_name r = n \<and> \<not> success r)"
    by blast
  with False show ?thesis
    unfolding same by fast
next
  case True
  then obtain i where i: "i < length attempted" and n: "n = device_name (attempted ! i)"
    by (auto simp: in_set_conv_nth)
  from returned i obtain r where r: "worker args ssh tok (worker_env e i) (attempted ! i) = Inr r"
    by blast
  have job: "(i, attempted ! i) \<in> set (jobs_of args e attempted)"
    using i by (auto simp: set_jobs_of)
  have stat: "get_status (sm (snd (deploy_all args ssh tok e attempted w))) n
                = Some (if success r then ''success'' else ''failed'')"
    unfolding deploy_all_jobs n
    using distinct_jobs_of [OF names] job r by (rule run_jobs_status_recorded)
  have mine: "recorded args ssh tok (worker_env e i) (attempted ! i) = r"
    using r by (simp add: recorded_def)
  have listed: "r \<in> set (fst (deploy_all args ssh tok e attempted w))"
    unfolding results_of_jobs using job mine by force
  have name: "result_device_name r = n"
    using mine recorded_name [of args ssh tok "worker_env e i" "attempted ! i"] by (simp add: n)
  have only: "r' = r"
    if "r' \<in> set (fst (deploy_all args ssh tok e attempted w))" and "result_device_name r' = n" for r'
  proof -
    from that(1) obtain j d where jd: "(j, d) \<in> set (jobs_of args e attempted)"
      and r': "r' = recorded args ssh tok (worker_env e j) d"
      unfolding results_of_jobs by auto
    with that(2) have "device_name d = device_name (attempted ! i)"
      by (simp add: recorded_name n)
    with jd have "j = i \<and> d = attempted ! i"
      using only_job_of_name [OF names i] by blast
    with r' mine show ?thesis by simp
  qed
  have "(\<exists>r'\<in>set (fst (deploy_all args ssh tok e attempted w)).
           result_device_name r' = n \<and> \<not> success r') \<longleftrightarrow> \<not> success r"
    using listed name only by blast
  then show ?thesis
    using True stat by simp
qed

subsection \<open>Resume and retry\<close>

lemma attempt_in_step:
  assumes "worker args ssh tok env device = Inr r"
  shows "in_step (sm (snd (attempt args ssh tok env w device)))"
  using worker_returned(2) [OF assms]
  by (simp add: attempt_return_world [OF worker_returned(1) [OF assms]]
      in_step_def mark_success_Written mark_failed_Written)

lemma run_jobs_in_step:
  assumes "in_step (sm w)"
    and "\<forall>(i, d)\<in>set jobs. \<exists>r. worker args ssh tok (envs i) d = Inr r"
  shows "in_step (sm (snd (run_jobs args ssh tok envs jobs rs w)))"
  using assms
proof (induction jobs arbitrary: rs w)
  case Nil
  then show ?case by simp
next
  case (Cons job jobs)
  obtain i d where job: "job = (i, d)" by (cases job)
  obtain r w' where a: "attempt args ssh tok (envs i) w d = (r, w')"
    by (cases "attempt args ssh tok (envs i) w d")
  from Cons.prems(2) obtain x where "worker args ssh tok (envs i) d = Inr x"
    by (auto simp: job)
  then have "in_step (sm (snd (attempt args ssh tok (envs i) w d)))"
    by (rule attempt_in_step)
  then have "in_step (sm w')"
    by (simp add: a)
  then have "in_step (sm (snd (run_jobs args ssh tok envs jobs (rs @ [r]) w')))"
    using Cons.prems(2) by (intro Cons.IH) auto
  then show ?case
    by (simp add: job a)
qed

lemma reload_in_step: "in_step st \<Longrightarrow> reload st = Inr st' \<Longrightarrow> state st' = state st"
  by (auto simp: in_step_def reload_def StateManager_init_def)

text \<open>A state manager as \<^verbatim>\<open>__init__\<close> builds it holds what the state file holds.\<close>

lemma init_in_step: "StateManager_init f = Inr st \<Longrightarrow> in_step st"
  by (cases f) (auto simp: StateManager_init_def in_step_def)

text \<open>
  C5, as the code has it. In resume mode, for every list of devices and every state, the
  devices selected are exactly those whose recorded status is not \<^verbatim>\<open>success\<close>, in the
  order of the list (and the run stops with exit code 0 when none is left). After a run
  in which every worker returned, the status that the next invocation reads for a device
  is not \<^verbatim>\<open>success\<close> exactly when that run's results hold a failure for it, or the run
  did not attempt it and it was not recorded as deployed before: resume then selects the
  failed and the never-attempted devices and leaves out the succeeded ones.
\<close>

theorem resume_selects_not_succeeded:
  assumes "arg_resume args"
  shows "apply_resume_retry args st devices
           = (if filter (\<lambda>d. get_status st (device_name d) \<noteq> Some ''success'') devices = []
              then Inl (SysExit 0 ''No devices to deploy after applying filters.'')
              else Inr (filter (\<lambda>d. get_status st (device_name d) \<noteq> Some ''success'') devices))
         \<and> (\<forall>selected. apply_resume_retry args st devices = Inr selected \<longrightarrow>
               set selected = {d \<in> set devices. get_status st (device_name d) \<noteq> Some ''success''})
         \<and> (distinct (map device_name attempted)
              \<and> (\<forall>i<length attempted.
                    \<exists>r. worker args' ssh tok (worker_env e i) (attempted ! i) = Inr r)
              \<and> in_step (sm w)
              \<and> reload (sm (snd (deploy_all args' ssh tok e attempted w))) = Inr st \<longrightarrow>
              (\<forall>d. get_status st (device_name d) \<noteq> Some ''success''
                 \<longleftrightarrow> (\<exists>r\<in>set (fst (deploy_all args' ssh tok e attempted w)).
                        result_device_name r = device_name d \<and> \<not> success r)
                     \<or> (device_name d \<notin> set (map device_name attempted)
                         \<and> get_status (sm w) (device_name d) \<noteq> Some ''success'')))"
proof -
  have sel: "apply_resume_retry args st devices
           = (if filter (\<lambda>d. get_status st (device_name d) \<noteq> Some ''success'') devices = []
              then Inl (SysExit 0 ''No devices to deploy after applying filters.'')
              else Inr (filter (\<lambda>d. get_status st (device_name d) \<noteq> Some ''success'') devices))"
    using assms by (simp add: apply_resume_retry_def)
  then have exact: "\<forall>selected. apply_resume_retry args st devices = Inr selected \<longrightarrow>
      set selected = {d \<in> set devices. get_status st (device_name d) \<noteq> Some ''success''}"
    by (auto split: if_splits)
  have run: "get_status st (device_name d) \<noteq> Some ''success''
               \<longleftrightarrow> (\<exists>r\<in>set (fst (deploy_all args' ssh tok e attempted w)).
                      result_device_name r = device_name d \<and> \<not> success r)
                   \<or> (device_name d \<notin> set (map device_name attempted)
                       \<and> get_status (sm w) (device_name d) \<noteq> Some ''success'')"
    if "distinct (map device_name attempted)"
      and "\<forall>i<length attempted. \<exists>r. worker args' ssh tok (worker_env e i) (attempted ! i) = Inr r"
      and "in_step (sm w)"
      and "reload (sm (snd (deploy_all args' ssh tok e attempted w))) = Inr st" for d
  proof -
    have "\<forall>(i, d)\<in>set (jobs_of args' e attempted).
            \<exists>r. worker args' ssh tok (worker_env e i) d = Inr r"
      using that(2) by (auto simp: set_jobs_of)
    with that(3) have "in_step (sm (snd (deploy_all args' ssh tok e attempted w)))"
      unfolding deploy_all_jobs by (rule run_jobs_in_step)
    then have "state st = state (sm (snd (deploy_all args' ssh tok e attempted w)))"
      using that(4) by (rule reload_in_step)
    then have "get_status st (device_name d)
                 = get_status (sm (snd (deploy_all args' ssh tok e attempted w))) (device_name d)"
      by (simp add: get_status_def)
    then show ?thesis
      using status_after_run [OF that(1,2), of w "device_name d"] by simp
  qed
  from sel exact run show ?thesis
    by blast
qed

lemma ex_returning_results:
  "set (fst (deploy_all ex_args ssh0 ''t0k'' ex_env_returning [rpi, rock] ex_world))
     = {\<lparr>result_device_name = ''rpi-london-001'', success = False, duration_seconds = 42,
         error_message = ''E: Unable to locate package zabbix-agent2'',
         log_file = ''logs/rpi-london-001.log''\<rparr>,
        \<lparr>result_device_name = ''rock-berlin-003'', success = True, duration_seconds = 42,
         error_message = [], log_file = ''logs/rock-berlin-003.log''\<rparr>}"
proof -
  have envs: "worker_env ex_env_returning 0 = env_install_fails"
    "worker_env ex_env_returning (Suc 0) = env_ok"
    by (simp_all add: ex_env_returning_def)
  have "{(i, [rpi, rock] ! i) | i. i < length [rpi, rock]} = {(0, rpi), (Suc 0, rock)}"
    by (auto simp: less_Suc_eq)
  then have "set (jobs_of ex_args ex_env_returning [rpi, rock]) = {(0, rpi), (Suc 0, rock)}"
    by (simp only: set_jobs_of)
  then show ?thesis
    by (simp add: results_of_jobs envs recorded_def ex_worker_0 ex_worker_2)
qed

theorem resume_selects_not_succeeded_witness:
  "arg_resume (ex_args\<lparr>arg_resume := True\<rparr>)
   \<and> apply_resume_retry (ex_args\<lparr>arg_resume := True\<rparr>) ex_state [rpi, mac, rock]
       = Inr [rpi, rock]
   \<and> apply_resume_retry (ex_args\<lparr>arg_resume := True\<rparr>) ex_state [mac]
       = Inl (SysExit 0 ''No devices to deploy after applying filters.'')
   \<and> in_step (sm ex_world)
   \<and> reload (sm (snd (deploy_all ex_args ssh0 ''t0k'' ex_env_returning [rpi, rock] ex_world)))
       = Inr (sm (snd (deploy_all ex_args ssh0 ''t0k'' ex_env_returning [rpi, rock] ex_world)))
   \<and> apply_resume_retry (ex_args\<lparr>arg_resume := True\<rparr>)
        (sm (snd (deploy_all ex_args ssh0 ''t0k'' ex_env_returning [rpi, rock] ex_world)))
        [rpi, mac, rock]
       = Inr [rpi, mac]"
proof -
  let ?after = "sm (snd (deploy_all ex_args ssh0 ''t0k'' ex_env_returning [rpi, rock] ex_world))"
  have a: "arg_resume (ex_args\<lparr>arg_resume := True\<rparr>)"
    by simp
  have s: "get_status ex_state (device_name rpi) = Some ''failed''"
    "get_status ex_state (device_name mac) = Some ''success''"
    "get_status ex_state (device_name rock) = None"
    by (simp_all add: get_status_def ex_state_def rpi_def mac_def rock_def)
  have names: "device_name rpi = ''rpi-london-001''" "device_name mac = ''mac-paris-002''"
    "device_name rock = ''rock-berlin-003''"
    by (simp_all add: rpi_def mac_def rock_def)
  have d: "distinct (map device_name [rpi, rock])"
    by (simp add: names)
  have r: "\<forall>i<length [rpi, rock].
             \<exists>r. worker ex_args ssh0 ''t0k'' (worker_env ex_env_returning i) ([rpi, rock] ! i) = Inr r"
    by (simp add: less_Suc_eq ex_env_returning_def ex_worker_0 ex_worker_2)
  have before: "get_status (sm ex_world) n = None" for n
    by (simp add: get_status_def ex_world_def)
  have i: "in_step (sm ex_world)"
    by (simp add: in_step_def ex_world_def)
  have "\<forall>(i, d)\<in>set (jobs_of ex_args ex_env_returning [rpi, rock]).
          \<exists>r. worker ex_args ssh0 ''t0k'' (worker_env ex_env_returning i) d = Inr r"
    using r by (auto simp: set_jobs_of)
  with i have "in_step ?after"
    unfolding deploy_all_jobs by (rule run_jobs_in_step)
  then have l: "reload ?after = Inr ?after"
    by (simp add: in_step_def reload_def StateManager_init_def)
  have "\<forall>d. get_status ?after (device_name d) \<noteq> Some ''success''
          \<longleftrightarrow> (\<exists>r\<in>set (fst (deploy_all ex_args ssh0 ''t0k'' ex_env_returning [rpi, rock] ex_world)).
                 result_device_name r = device_name d \<and> \<not> success r)
              \<or> (device_name d \<notin> set (map device_name [rpi, rock])
                  \<and> get_status (sm ex_world) (device_name d) \<noteq> Some ''success'')"
    using resume_selects_not_succeeded [OF a, of ?after "[rpi, mac, rock]" "[rpi, rock]"
        ex_args ssh0 "''t0k''" ex_env_returning ex_world] d r i l
    by blast
  then have link: "get_status ?after (device_name d) \<noteq> Some ''success''
          \<longleftrightarrow> (\<exists>r\<in>set (fst (deploy_all ex_args ssh0 ''t0k'' ex_env_returning [rpi, rock] ex_world)).
                 result_device_name r = device_name d \<and> \<not> success r)
              \<or> (device_name d \<notin> set (map device_name [rpi, rock])
                  \<and> get_status (sm ex_world) (device_name d) \<noteq> Some ''success'')" for d
    by blast
  have after: "get_status ?after (device_name rpi) \<noteq> Some ''success''"
    "get_status ?after (device_name mac) \<noteq> Some ''success''"
    "get_status ?after (device_name rock) = Some ''success''"
    using link [of rpi] link [of mac] link [of rock]
    by (simp_all add: ex_returning_results names before)
  note selection = resume_selects_not_succeeded [OF a, THEN conjunct1]
  show ?thesis
    using selection [of ex_state "[rpi, mac, rock]"] selection [of ex_state "[mac]"]
      selection [of ?after "[rpi, mac, rock]"] i l
    by (simp add: s after)
qed

text \<open>
  The claim as the specification states it, for every run, fails after a run in which a
  worker raised. The second device was recorded as deployed by an earlier run. This run
  attempts all three devices: the third succeeds, the first fails, and the worker of the
  second raises, so that the results hold two failures; the state keeps the second
  device as deployed, and the next invocation with \<^verbatim>\<open>--resume\<close> selects the first
  device only.
\<close>

theorem resume_skips_faulted_counterexample:
  "fst (deploy_all ex_args ssh0 ''t0k'' ex_env [rpi, mac, rock] ex_world_after)
     = [\<lparr>result_device_name = ''rock-berlin-003'', success = True, duration_seconds = 42,
         error_message = [], log_file = ''logs/rock-berlin-003.log''\<rparr>,
        \<lparr>result_device_name = ''rpi-london-001'', success = False, duration_seconds = 42,
         error_message = ''E: Unable to locate package zabbix-agent2'',
         log_file = ''logs/rpi-london-001.log''\<rparr>,
        \<lparr>result_device_name = ''mac-paris-002'', success = False, duration_seconds = 0,
         error_message = ''Unexpected error: timed out after 600 seconds'', log_file = []\<rparr>]
   \<and> reload (sm (snd (deploy_all ex_args ssh0 ''t0k'' ex_env [rpi, mac, rock] ex_world_after)))
       = Inr (sm (snd (deploy_all ex_args ssh0 ''t0k'' ex_env [rpi, mac, rock] ex_world_after)))
   \<and> apply_resume_retry (ex_args\<lparr>arg_resume := True\<rparr>)
        (sm (snd (deploy_all ex_args ssh0 ''t0k'' ex_env [rpi, mac, rock] ex_world_after)))
        [rpi, mac, rock]
       = Inr [rpi]"
proof -
  let ?after = "sm (snd (deploy_all ex_args ssh0 ''t0k'' ex_env [rpi, mac, rock] ex_world_after))"
  have names: "device_name rpi = ''rpi-london-001''" "device_name mac = ''mac-paris-002''"
    "device_name rock = ''rock-berlin-003''"
    by (simp_all add: rpi_def mac_def rock_def)
  have envs: "worker_env ex_env 0 = env_install_fails"
    "worker_env ex_env (Suc 0) = env_install_hangs" "worker_env ex_env 2 = env_ok"
    by (simp_all add: ex_env_def)
  have par: "arg_parallel ex_args > 1"
    by (simp add: ex_args_def)
  have res: "fst (deploy_all ex_args ssh0 ''t0k'' ex_env [rpi, mac, rock] ex_world_after)
      = map (\<lambda>(i, d). recorded ex_args ssh0 ''t0k'' (worker_env ex_env i) d)
          [(2, rock), (0, rpi), (1, mac)]"
    using par by (simp only: deploy_all_def if_True run_jobs_results ex_jobs append_Nil)
  have one: "fst (deploy_all ex_args ssh0 ''t0k'' ex_env [rpi, mac, rock] ex_world_after)
     = [\<lparr>result_device_name = ''rock-berlin-003'', success = True, duration_seconds = 42,
         error_message = [], log_file = ''logs/rock-berlin-003.log''\<rparr>,
        \<lparr>result_device_name = ''rpi-london-001'', success = False, duration_seconds = 42,
         error_message = ''E: Unable to locate package zabbix-agent2'',
         log_file = ''logs/rpi-london-001.log''\<rparr>,
        \<lparr>result_device_name = ''mac-paris-002'', success = False, duration_seconds = 0,
         error_message = ''Unexpected error: timed out after 600 seconds'', log_file = []\<rparr>]"
    by (simp add: res envs names recorded_def ex_worker_0 ex_worker_1 ex_worker_2
        unexpected_def)
  have jobs: "set (jobs_of ex_args ex_env [rpi, mac, rock])
                = {(0, rpi), (Suc 0, mac), (2, rock)}"
    by (auto simp: set_jobs_of less_Suc_eq numeral_2_eq_2 numeral_3_eq_3)
  have d: "distinct (map (device_name \<circ> snd) (jobs_of ex_args ex_env [rpi, mac, rock]))"
    by (rule distinct_jobs_of) (simp add: names)
  have rpi: "get_status ?after (device_name rpi) = Some ''failed''"
    unfolding deploy_all_jobs
    using run_jobs_status_recorded
            [OF d, where i = 0 and d = rpi and args = ex_args and ssh = ssh0
               and tok = "''t0k''" and envs = "worker_env ex_env"]
    by (simp add: jobs envs ex_worker_0)
  have rock: "get_status ?after (device_name rock) = Some ''success''"
    unfolding deploy_all_jobs
    using run_jobs_status_recorded
            [OF d, where i = 2 and d = rock and args = ex_args and ssh = ssh0
               and tok = "''t0k''" and envs = "worker_env ex_env"]
    by (simp add: jobs envs ex_worker_2)
  have raised: "fst (deploy_device (worker_env ex_env (Suc 0)) Map.empty mac ssh0 ''t0k''
                  (arg_scripts_dir ex_args) (arg_log_dir ex_args) (arg_github ex_args))
             = Inl (TimeoutExpired ''timed out after 600 seconds'')"
    by (simp add: deploy_device_def deploy_local_def
      test_connectivity_def scp_file_def ssh_run_def install_script_def INSTALL_SCRIPTS_def
      path_join_def Let_def env_install_hangs_def env_ok_def completed_ok_def ex_args_def
      mac_def envs)
  have "\<forall>(j, b)\<in>set (jobs_of ex_args ex_env [rpi, mac, rock]).
          device_name b = device_name mac \<longrightarrow>
            (\<exists>exn. fst (deploy_device (worker_env ex_env j) Map.empty b ssh0 ''t0k''
                (arg_scripts_dir ex_args) (arg_log_dir ex_args) (arg_github ex_args)) = Inl exn)"
    using raised by (simp add: jobs names)
  then have "state ?after (device_name mac) = state (sm ex_world_after) (device_name mac)"
    unfolding deploy_all_jobs by (rule run_jobs_state_untouched)
  then have mac: "get_status ?after (device_name mac) = Some ''success''"
    by (simp add: get_status_def ex_world_after_def names)
  have two: "reload ?after = Inr ?after"
  proof -
    have "in_step (sm (snd (run_jobs ex_args ssh0 ''t0k'' (worker_env ex_env)
                              [(2, rock), (0, rpi), (1, mac)] [] ex_world_after)))"
      using attempt_in_step [OF ex_worker_0]
        attempt_raise_world [OF raised]
      by (simp add: envs split: prod.splits)
         (metis snd_conv)
    then have "in_step ?after"
      using par by (simp only: deploy_all_def if_True ex_jobs)
    then show ?thesis
      by (simp add: in_step_def reload_def StateManager_init_def)
  qed
  have a: "arg_resume (ex_args\<lparr>arg_resume := True\<rparr>)"
    by simp
  have three: "apply_resume_retry (ex_args\<lparr>arg_resume := True\<rparr>) ?after [rpi, mac, rock]
                 = Inr [rpi]"
    using a by (simp add: apply_resume_retry_def rpi mac rock)
  from one two three show ?thesis
    by (intro conjI)
qed

text \<open>
  C6. In retry-failed mode (\<^verbatim>\<open>--retry-failed\<close> without \<^verbatim>\<open>--resume\<close>), for every
  list of devices and every state, the devices selected are exactly those whose recorded
  status is \<^verbatim>\<open>failed\<close>, in the order of the list. When there is none, the run ends
  there with \<^verbatim>\<open>sys.exit(0)\<close>: no device is attempted, and the state file and the logs
  are as they were.
\<close>

theorem retry_failed_selects_failed:
  assumes "\<not> arg_resume args" and "arg_retry_failed args"
  shows "apply_resume_retry args st devices
           = (if filter (\<lambda>d. get_status st (device_name d) = Some ''failed'') devices = []
              then Inl (SysExit 0 ''No failed devices to retry.'')
              else Inr (filter (\<lambda>d. get_status st (device_name d) = Some ''failed'') devices))
         \<and> (\<forall>selected. apply_resume_retry args st devices = Inr selected \<longrightarrow>
               set selected = {d \<in> set devices. get_status st (device_name d) = Some ''failed''})
         \<and> (parse_args given = Inr args
              \<and> get_token args e = Inr tok
              \<and> check_prerequisites e (arg_dry_run args) = Inr sshpass
              \<and> load_inventory args e = Inr listed
              \<and> filter_device args listed = Inr named
              \<and> filter_platform args named = Inr devices
              \<and> StateManager_init (persisted e) = Inr st
              \<and> filter (\<lambda>d. get_status st (device_name d) = Some ''failed'') devices = [] \<longrightarrow>
              main given e
                = \<lparr>ending = SysExit 0 ''No failed devices to retry.'', results = [],
                   end_file = persisted e, end_logs = log_files e\<rparr>
              \<and> exit_code (ending (main given e)) = 0)"
proof -
  have sel: "apply_resume_retry args st devices
           = (if filter (\<lambda>d. get_status st (device_name d) = Some ''failed'') devices = []
              then Inl (SysExit 0 ''No failed devices to retry.'')
              else Inr (filter (\<lambda>d. get_status st (device_name d) = Some ''failed'') devices))"
    using assms by (simp add: apply_resume_retry_def Let_def)
  then have exact: "\<forall>selected. apply_resume_retry args st devices = Inr selected \<longrightarrow>
      set selected = {d \<in> set devices. get_status st (device_name d) = Some ''failed''}"
    by (auto split: if_splits)
  have stop: "main given e
                = \<lparr>ending = SysExit 0 ''No failed devices to retry.'', results = [],
                   end_file = persisted e, end_logs = log_files e\<rparr>
              \<and> exit_code (ending (main given e)) = 0"
    if "parse_args given = Inr args" "get_token args e = Inr tok"
      "check_prerequisites e (arg_dry_run args) = Inr sshpass"
      "load_inventory args e = Inr listed" "filter_device args listed = Inr named"
      "filter_platform args named = Inr devices" "StateManager_init (persisted e) = Inr st"
      "filter (\<lambda>d. get_status st (device_name d) = Some ''failed'') devices = []"
    using that sel by (simp add: main_def Let_def stopped_def)
  from sel exact stop show ?thesis
    by blast
qed

theorem retry_failed_selects_failed_witness:
  "\<not> arg_resume (ex_args\<lparr>arg_retry_failed := True\<rparr>)
   \<and> arg_retry_failed (ex_args\<lparr>arg_retry_failed := True\<rparr>)
   \<and> apply_resume_retry (ex_args\<lparr>arg_retry_failed := True\<rparr>) ex_state [rpi, mac, rock]
       = Inr [rpi]
   \<and> main (Namespace (ex_args\<lparr>arg_retry_failed := True\<rparr>)) ex_env
       = \<lparr>ending = SysExit 0 ''No failed devices to retry.'', results = [],
          end_file = NoFile, end_logs = Map.empty\<rparr>
   \<and> exit_code (ending (main (Namespace (ex_args\<lparr>arg_retry_failed := True\<rparr>)) ex_env)) = 0"
proof -
  let ?args = "ex_args\<lparr>arg_retry_failed := True\<rparr>"
  let ?st = "\<lparr>state_file = NoFile, state = Map.empty\<rparr>"
  have a: "\<not> arg_resume ?args" "arg_retry_failed ?args"
    by (simp_all add: ex_args_def)
  have s: "get_status ex_state (device_name rpi) = Some ''failed''"
    "get_status ex_state (device_name mac) = Some ''success''"
    "get_status ex_state (device_name rock) = None"
    by (simp_all add: get_status_def ex_state_def rpi_def mac_def rock_def)
  have h: "parse_args (Namespace ?args) = Inr ?args
      \<and> get_token ?args ex_env = Inr ''t0k''
      \<and> check_prerequisites ex_env (arg_dry_run ?args) = Inr ''/usr/bin/sshpass''
      \<and> load_inventory ?args ex_env = Inr [rpi, mac, rock]
      \<and> filter_device ?args [rpi, mac, rock] = Inr [rpi, mac, rock]
      \<and> filter_platform ?args [rpi, mac, rock] = Inr [rpi, mac, rock]
      \<and> StateManager_init (persisted ex_env) = Inr ?st
      \<and> filter (\<lambda>d. get_status ?st (device_name d) = Some ''failed'') [rpi, mac, rock] = []"
    by (simp add: parse_args_def get_token_def check_prerequisites_def load_inventory_def
        filter_device_def filter_platform_def StateManager_init_def get_status_def
        ex_args_def ex_env_def)
  have e: "persisted ex_env = NoFile" "log_files ex_env = Map.empty"
    by (simp_all add: ex_env_def)
  have "main (Namespace ?args) ex_env
          = \<lparr>ending = SysExit 0 ''No failed devices to retry.'', results = [],
             end_file = persisted ex_env, end_logs = log_files ex_env\<rparr>
        \<and> exit_code (ending (main (Namespace ?args) ex_env)) = 0"
    using retry_failed_selects_failed [OF a, of ?st "[rpi, mac, rock]" "Namespace ?args" ex_env "''t0k''"
        "''/usr/bin/sshpass''" "[rpi, mac, rock]" "[rpi, mac, rock]"] h
    by blast
  then show ?thesis
    using retry_failed_selects_failed [OF a, THEN conjunct1, of ex_state "[rpi, mac, rock]"] a
    by (simp add: s e)
qed

subsection \<open>How the process ends\<close>

lemma get_token_stop: "get_token args e = Inl stop \<Longrightarrow> exit_code stop = 1"
  by (auto simp: get_token_def Let_def split: if_splits option.splits)

lemma check_prerequisites_stop: "check_prerequisites e dry = Inl stop \<Longrightarrow> exit_code stop = 1"
  by (auto simp: check_prerequisites_def Let_def split: if_splits)

lemma load_inventory_stop: "load_inventory args e = Inl stop \<Longrightarrow> exit_code stop = 1"
  by (auto simp: load_inventory_def split: if_splits inventory_file.splits)

lemma filter_device_stop: "filter_device args devices = Inl stop \<Longrightarrow> exit_code stop = 1"
  by (auto simp: filter_device_def Let_def split: if_splits)

lemma filter_platform_stop: "filter_platform args devices = Inl stop \<Longrightarrow> exit_code stop = 1"
  by (auto simp: filter_platform_def Let_def split: if_splits)

lemma apply_resume_retry_stop:
  "apply_resume_retry args st devices = Inl stop \<Longrightarrow> exit_code stop = 0"
  by (auto simp: apply_resume_retry_def Let_def split: if_splits sum.splits)

lemma apply_resume_retry_nonempty:
  "apply_resume_retry args st devices = Inr selected \<Longrightarrow> selected \<noteq> []"
  by (auto simp: apply_resume_retry_def Let_def split: if_splits sum.splits)

lemma main_reaches_policy:
  assumes "parse_args given = Inr args"
    and "get_token args e = Inr tok"
    and "check_prerequisites e (arg_dry_run args) = Inr sshpass"
    and "load_inventory args e = Inr listed"
    and "filter_device args listed = Inr named"
    and "filter_platform args named = Inr devices"
    and "StateManager_init (persisted e) = Inr st"
  shows "main given e
           = (case apply_resume_retry args st devices of
                Inl stop \<Rightarrow> stopped e stop
              | Inr selected \<Rightarrow> deploy_selected args e tok sshpass st selected)"
  using assms by (simp add: main_def Let_def)

text \<open>
  C2, as the code has it. Once the command line is parsed and the token and the
  prerequisites are settled: a missing inventory, an inventory without valid devices and
  a filter that leaves no device end the run with exit code 1 before any device is
  touched; a resume or retry that leaves no device to deploy ends it with exit code 0;
  and when the deployment runs, the exit code is 1 if at least one recorded outcome is a
  failure and 0 otherwise. A configuration error and a failed deployment therefore share
  the exit code 1 and differ only in the message printed.
\<close>

theorem exit_code_by_outcome:
  assumes "parse_args given = Inr args"
    and "get_token args e = Inr tok"
    and "check_prerequisites e (arg_dry_run args) = Inr sshpass"
  shows "(\<not> inventory_exists e \<or> inventory e = Rows [] \<longrightarrow>
            (\<exists>stop. load_inventory args e = Inl stop))
       \<and> (load_inventory args e = Inl stop \<longrightarrow>
            main given e = stopped e stop \<and> exit_code (ending (main given e)) = 1)
       \<and> (load_inventory args e = Inr listed
            \<and> (filter_device args listed = Inl stop
                \<or> (\<exists>named. filter_device args listed = Inr named
                            \<and> filter_platform args named = Inl stop)) \<longrightarrow>
            main given e = stopped e stop \<and> exit_code (ending (main given e)) = 1)
       \<and> (load_inventory args e = Inr listed
            \<and> filter_device args listed = Inr named
            \<and> filter_platform args named = Inr devices
            \<and> StateManager_init (persisted e) = Inr st \<longrightarrow>
            (apply_resume_retry args st devices = Inl stop \<longrightarrow>
               main given e = stopped e stop \<and> exit_code (ending (main given e)) = 0)
            \<and> (apply_resume_retry args st devices = Inr selected
                \<and> \<not> arg_check args \<and> \<not> arg_dry_run args
                \<and> (length selected \<le> 1 \<or> map py_lower (strip (confirm_response e)) = ''y'')
                \<and> makedirs e = None
                \<longrightarrow>
                results (main given e)
                  = fst (deploy_all args \<lparr>sshpass_path = sshpass\<rparr> tok e selected
                           \<lparr>sm = st, logs = log_files e\<rparr>)
                \<and> exit_code (ending (main given e))
                    = (if \<exists>r\<in>set (results (main given e)). \<not> success r then 1 else 0)))"
proof -
  have missing: "\<exists>stop. load_inventory args e = Inl stop"
    if "\<not> inventory_exists e \<or> inventory e = Rows []"
    using that by (auto simp: load_inventory_def)
  have inv: "main given e = stopped e stop \<and> exit_code (ending (main given e)) = 1"
    if "load_inventory args e = Inl stop" for stop
    using that assms load_inventory_stop [OF that]
    by (simp add: main_def Let_def stopped_def)
  have filt: "main given e = stopped e stop \<and> exit_code (ending (main given e)) = 1"
    if "load_inventory args e = Inr listed"
      and "filter_device args listed = Inl stop
           \<or> (\<exists>named. filter_device args listed = Inr named
                      \<and> filter_platform args named = Inl stop)"
    for stop listed
    using that assms filter_device_stop [of args listed stop] filter_platform_stop [of args _ stop]
    by (auto simp: main_def Let_def stopped_def)
  have policy: "main given e = stopped e stop \<and> exit_code (ending (main given e)) = 0"
    if "load_inventory args e = Inr listed" "filter_device args listed = Inr named"
      "filter_platform args named = Inr devices" "StateManager_init (persisted e) = Inr st"
      "apply_resume_retry args st devices = Inl stop"
    using main_reaches_policy [OF assms that(1-4)] that(5) apply_resume_retry_stop [OF that(5)]
    by (simp add: stopped_def)
  have deploy: "results (main given e)
                  = fst (deploy_all args \<lparr>sshpass_path = sshpass\<rparr> tok e selected
                           \<lparr>sm = st, logs = log_files e\<rparr>)
                \<and> exit_code (ending (main given e))
                    = (if \<exists>r\<in>set (results (main given e)). \<not> success r then 1 else 0)"
    if "load_inventory args e = Inr listed" "filter_device args listed = Inr named"
      "filter_platform args named = Inr devices" "StateManager_init (persisted e) = Inr st"
      "apply_resume_retry args st devices = Inr selected"
      "\<not> arg_check args" "\<not> arg_dry_run args"
      "length selected \<le> 1 \<or> map py_lower (strip (confirm_response e)) = ''y''"
      "makedirs e = None"
  proof -
    have "main given e = deploy_selected args e tok sshpass st selected"
      using main_reaches_policy [OF assms that(1-4)] that(5) by simp
    then show ?thesis
      using that(6-9)
      by (auto simp: deploy_selected_def stop_before_deploy_def list_ex_iff split: prod.splits)
  qed
  show ?thesis
  proof (intro conjI impI; (elim conjE)?)
    assume "\<not> inventory_exists e \<or> inventory e = Rows []"
    then show "\<exists>stop. load_inventory args e = Inl stop"
      by (rule missing)
  next
    assume "load_inventory args e = Inl stop"
    then show "main given e = stopped e stop" "exit_code (ending (main given e)) = 1"
      using inv by blast+
  next
    assume "load_inventory args e = Inr listed"
      and "filter_device args listed = Inl stop
           \<or> (\<exists>named. filter_device args listed = Inr named
                      \<and> filter_platform args named = Inl stop)"
    then show "main given e = stopped e stop" "exit_code (ending (main given e)) = 1"
      using filt by blast+
  next
    assume "load_inventory args e = Inr listed" "filter_device args listed = Inr named"
      "filter_platform args named = Inr devices" "StateManager_init (persisted e) = Inr st"
      "apply_resume_retry args st devices = Inl stop"
    then show "main given e = stopped e stop" "exit_code (ending (main given e)) = 0"
      using policy by blast+
  next
    assume "load_inventory args e = Inr listed" "filter_device args listed = Inr named"
      "filter_platform args named = Inr devices" "StateManager_init (persisted e) = Inr st"
      "apply_resume_retry args st devices = Inr selected"
      "\<not> arg_check args" "\<not> arg_dry_run args"
      "length selected \<le> 1 \<or> map py_lower (strip (confirm_response e)) = ''y''"
      "makedirs e = None"
    then have "results (main given e)
                 = fst (deploy_all args \<lparr>sshpass_path = sshpass\<rparr> tok e selected
                          \<lparr>sm = st, logs = log_files e\<rparr>)
               \<and> exit_code (ending (main given e))
                   = (if \<exists>r\<in>set (results (main given e)). \<not> success r then 1 else 0)"
      by (rule deploy)
    then show "results (main given e)
                 = fst (deploy_all args \<lparr>sshpass_path = sshpass\<rparr> tok e selected
                          \<lparr>sm = st, logs = log_files e\<rparr>)"
      "exit_code (ending (main given e))
         = (if \<exists>r\<in>set (results (main given e)). \<not> success r then 1 else 0)"
      by (rule conjunct1, rule conjunct2)
  qed
qed

lemma ex_steps:
  "parse_args (Namespace ex_args) = Inr ex_args"
  "get_token ex_args ex_env = Inr ''t0k''"
  "check_prerequisites ex_env (arg_dry_run ex_args) = Inr ''/usr/bin/sshpass''"
  "load_inventory ex_args ex_env = Inr [rpi, mac, rock]"
  "filter_device ex_args [rpi, mac, rock] = Inr [rpi, mac, rock]"
  "filter_platform ex_args [rpi, mac, rock] = Inr [rpi, mac, rock]"
  "StateManager_init (persisted ex_env) = Inr \<lparr>state_file = NoFile, state = Map.empty\<rparr>"
  "apply_resume_retry ex_args \<lparr>state_file = NoFile, state = Map.empty\<rparr> [rpi, mac, rock]
     = Inr [rpi, mac, rock]"
  by (simp_all add: parse_args_def get_token_def check_prerequisites_def load_inventory_def
      filter_device_def filter_platform_def StateManager_init_def apply_resume_retry_def
      ex_args_def ex_env_def)

lemma ex_confirmed:
  "\<not> arg_check ex_args" "\<not> arg_dry_run ex_args"
  "length [rpi, mac, rock] \<le> 1 \<or> map py_lower (strip (confirm_response ex_env)) = ''y''"
  "makedirs ex_env = None"
  by (simp_all add: ex_args_def ex_env_def strip_def py_isspace_def py_lower_def)

lemma ex_no_inventory_steps:
  "get_token ex_args (ex_env\<lparr>inventory_exists := False\<rparr>) = Inr ''t0k''"
  "check_prerequisites (ex_env\<lparr>inventory_exists := False\<rparr>) (arg_dry_run ex_args)
     = Inr ''/usr/bin/sshpass''"
  "load_inventory ex_args (ex_env\<lparr>inventory_exists := False\<rparr>)
     = Inl (SysExit 1 ''ERROR: Inventory file not found: inventory.csv'')"
  by (simp_all add: get_token_def check_prerequisites_def load_inventory_def
      ex_args_def ex_env_def)

text \<open>The example run deploys to three devices, two of which fail.\<close>

lemma ex_main:
  "results (main (Namespace ex_args) ex_env)
     = fst (deploy_all ex_args ssh0 ''t0k'' ex_env [rpi, mac, rock] ex_world)"
  "ending (main (Namespace ex_args) ex_env) = SysExit 1 []"
proof -
  have w: "\<lparr>sm = \<lparr>state_file = NoFile, state = Map.empty\<rparr>, logs = log_files ex_env\<rparr> = ex_world"
    by (simp add: ex_world_def ex_env_def)
  have "main (Namespace ex_args) ex_env
      = deploy_selected ex_args ex_env ''t0k'' ''/usr/bin/sshpass''
          \<lparr>state_file = NoFile, state = Map.empty\<rparr> [rpi, mac, rock]"
    using main_reaches_policy [OF ex_steps(1-7)] by (simp add: ex_steps(8))
  then have m: "main (Namespace ex_args) ex_env
      = (case deploy_all ex_args ssh0 ''t0k'' ex_env [rpi, mac, rock] ex_world of
           (rs, w) \<Rightarrow>
             \<lparr>ending = (if list_ex (\<lambda>r. \<not> success r) rs then SysExit 1 [] else Returns),
              results = rs, end_file = state_file (sm w), end_logs = logs w\<rparr>)"
    using ex_confirmed by (simp add: deploy_selected_def stop_before_deploy_def w ssh0_def)
  show "results (main (Namespace ex_args) ex_env)
     = fst (deploy_all ex_args ssh0 ''t0k'' ex_env [rpi, mac, rock] ex_world)"
    by (simp add: m split: prod.splits)
  have "ending (main (Namespace ex_args) ex_env)
      = (if list_ex (\<lambda>r. \<not> success r)
              (fst (deploy_all ex_args ssh0 ''t0k'' ex_env [rpi, mac, rock] ex_world))
         then SysExit 1 [] else Returns)"
    by (simp add: m split: prod.splits)
  then show "ending (main (Namespace ex_args) ex_env) = SysExit 1 []"
    by (simp add: ex_results)
qed

text \<open>The same command line with the inventory file missing.\<close>

lemma ex_main_no_inventory:
  "main (Namespace ex_args) (ex_env\<lparr>inventory_exists := False\<rparr>)
     = stopped (ex_env\<lparr>inventory_exists := False\<rparr>)
         (SysExit 1 ''ERROR: Inventory file not found: inventory.csv'')"
  by (simp add: main_def Let_def ex_steps(1) ex_no_inventory_steps)

theorem exit_code_by_outcome_witness:
  "\<not> inventory_exists (ex_env\<lparr>inventory_exists := False\<rparr>)
   \<and> main (Namespace ex_args) (ex_env\<lparr>inventory_exists := False\<rparr>)
       = stopped (ex_env\<lparr>inventory_exists := False\<rparr>)
           (SysExit 1 ''ERROR: Inventory file not found: inventory.csv'')
   \<and> exit_code (ending (main (Namespace ex_args) (ex_env\<lparr>inventory_exists := False\<rparr>))) = 1
   \<and> map success (results (main (Namespace ex_args) ex_env)) = [True, False, False]
   \<and> exit_code (ending (main (Namespace ex_args) ex_env)) = 1"
proof -
  have "main (Namespace ex_args) (ex_env\<lparr>inventory_exists := False\<rparr>)
          = stopped (ex_env\<lparr>inventory_exists := False\<rparr>)
              (SysExit 1 ''ERROR: Inventory file not found: inventory.csv'')
        \<and> exit_code (ending (main (Namespace ex_args) (ex_env\<lparr>inventory_exists := False\<rparr>))) = 1"
    using exit_code_by_outcome
        [where stop = "SysExit 1 ''ERROR: Inventory file not found: inventory.csv''",
         OF ex_steps(1) ex_no_inventory_steps(1,2)]
      ex_no_inventory_steps(3)
    by blast
  moreover have "results (main (Namespace ex_args) ex_env)
          = fst (deploy_all ex_args \<lparr>sshpass_path = ''/usr/bin/sshpass''\<rparr> ''t0k'' ex_env
                   [rpi, mac, rock]
                   \<lparr>sm = \<lparr>state_file = NoFile, state = Map.empty\<rparr>, logs = log_files ex_env\<rparr>)
        \<and> exit_code (ending (main (Namespace ex_args) ex_env))
            = (if \<exists>r\<in>set (results (main (Namespace ex_args) ex_env)). \<not> success r then 1 else 0)"
    using exit_code_by_outcome
        [where listed = "[rpi, mac, rock]" and named = "[rpi, mac, rock]"
           and devices = "[rpi, mac, rock]" and selected = "[rpi, mac, rock]"
           and st = "\<lparr>state_file = NoFile, state = Map.empty\<rparr>",
         OF ex_steps(1-3)]
      ex_steps(4-8) ex_confirmed
    by simp
  moreover have "\<lparr>sm = \<lparr>state_file = NoFile, state = Map.empty\<rparr>, logs = log_files ex_env\<rparr>
      = ex_world" "\<lparr>sshpass_path = ''/usr/bin/sshpass''\<rparr> = ssh0"
    by (simp_all add: ex_world_def ex_env_def ssh0_def)
  ultimately show ?thesis
    by (simp add: ex_results stopped_def)
qed

text \<open>
  The claim as the specification states it fails: the run that finds no inventory file
  (a hard configuration error, no device touched) and the run in which two of three
  devices fail leave with the same exit code.
\<close>

theorem exit_classes_counterexample:
  "\<not> inventory_exists (ex_env\<lparr>inventory_exists := False\<rparr>)
   \<and> results (main (Namespace ex_args) (ex_env\<lparr>inventory_exists := False\<rparr>)) = []
   \<and> map success (results (main (Namespace ex_args) ex_env)) = [True, False, False]
   \<and> exit_code (ending (main (Namespace ex_args) (ex_env\<lparr>inventory_exists := False\<rparr>)))
       = exit_code (ending (main (Namespace ex_args) ex_env))"
  by (simp add: ex_main ex_main_no_inventory ex_results stopped_def)

subsection \<open>A state file that cannot be loaded\<close>

lemma ex_not_loaded_steps:
  "get_token ex_args (ex_env\<lparr>persisted := f\<rparr>) = Inr ''t0k''"
  "check_prerequisites (ex_env\<lparr>persisted := f\<rparr>) (arg_dry_run ex_args)
     = Inr ''/usr/bin/sshpass''"
  "load_inventory ex_args (ex_env\<lparr>persisted := f\<rparr>) = Inr [rpi, mac, rock]"
  "get_token (ex_args\<lparr>arg_resume := True\<rparr>) (ex_env\<lparr>persisted := f\<rparr>) = Inr ''t0k''"
  "check_prerequisites (ex_env\<lparr>persisted := f\<rparr>) (arg_dry_run (ex_args\<lparr>arg_resume := True\<rparr>))
     = Inr ''/usr/bin/sshpass''"
  "load_inventory (ex_args\<lparr>arg_resume := True\<rparr>) (ex_env\<lparr>persisted := f\<rparr>)
     = Inr [rpi, mac, rock]"
  "filter_device (ex_args\<lparr>arg_resume := True\<rparr>) [rpi, mac, rock] = Inr [rpi, mac, rock]"
  "filter_platform (ex_args\<lparr>arg_resume := True\<rparr>) [rpi, mac, rock] = Inr [rpi, mac, rock]"
  "parse_args (Namespace (ex_args\<lparr>arg_resume := True\<rparr>)) = Inr (ex_args\<lparr>arg_resume := True\<rparr>)"
  by (simp_all add: parse_args_def get_token_def check_prerequisites_def load_inventory_def
      filter_device_def filter_platform_def ex_args_def ex_env_def)

text \<open>
  C8. Loading the state does not fail soft on every corrupt state file. \<^verbatim>\<open>_load\<close>
  handles \<^verbatim>\<open>IOError\<close> and \<^verbatim>\<open>JSONDecodeError\<close> only: on a state file that is not valid
  UTF-8 the decoding error leaves \<^verbatim>\<open>_load\<close> and the constructor of the state manager,
  and the run that would deploy to three devices ends there with the exception, before
  any device is touched. On a state file that holds a JSON list, \<^verbatim>\<open>_load\<close> returns the
  list, not the empty state, and a run with \<^verbatim>\<open>--resume\<close> ends with the exception that
  \<^verbatim>\<open>get_status\<close> raises on it.
\<close>

theorem load_raises_on_corrupt_state:
  "load_state (RaisesOther undecodable) = Inl undecodable
   \<and> StateManager_init (RaisesOther undecodable) = Inl (Raises undecodable)
   \<and> main (Namespace ex_args) (ex_env\<lparr>persisted := RaisesOther undecodable\<rparr>)
       = \<lparr>ending = Uncaught undecodable, results = [],
          end_file = RaisesOther undecodable, end_logs = Map.empty\<rparr>
   \<and> exit_code (ending (main (Namespace ex_args)
                            (ex_env\<lparr>persisted := RaisesOther undecodable\<rparr>))) = 1
   \<and> load_state (JsonOther JArray) = Inr (Other JArray)
   \<and> main (Namespace (ex_args\<lparr>arg_resume := True\<rparr>)) (ex_env\<lparr>persisted := JsonOther JArray\<rparr>)
       = \<lparr>ending = Uncaught (OtherException
                      ([SQ] @ ''list'' @ [SQ] @ '' object has no attribute ''
                       @ [SQ] @ ''get'' @ [SQ])),
          results = [], end_file = JsonOther JArray, end_logs = Map.empty\<rparr>"
proof -
  have one: "main (Namespace ex_args) (ex_env\<lparr>persisted := RaisesOther undecodable\<rparr>)
       = \<lparr>ending = Uncaught undecodable, results = [],
          end_file = RaisesOther undecodable, end_logs = Map.empty\<rparr>"
    by (simp add: main_def ex_steps(1,5,6) ex_not_loaded_steps StateManager_init_def
        stopped_def)
       (simp add: ex_env_def)
  have two: "main (Namespace (ex_args\<lparr>arg_resume := True\<rparr>))
               (ex_env\<lparr>persisted := JsonOther JArray\<rparr>)
       = \<lparr>ending = Uncaught (OtherException
                      ([SQ] @ ''list'' @ [SQ] @ '' object has no attribute ''
                       @ [SQ] @ ''get'' @ [SQ])),
          results = [], end_file = JsonOther JArray, end_logs = Map.empty\<rparr>"
    by (simp add: main_def ex_not_loaded_steps StateManager_init_def main_not_dict_def
        no_get_def stopped_def)
       (simp add: ex_env_def)
  show ?thesis
    by (simp add: one two StateManager_init_def)
qed
end
